theory Spec2Isabelle
  imports Main "HOL-Library.Monad_Syntax"
begin

section \<open>Tokens (token.h)\<close>

text \<open>
  The scoped enumeration \<^verbatim>\<open>TokenType\<close>. The header lists its enumerators in five groups
  (keywords, operators, punctuation, literals, special tokens); the model keeps the
  groups as types of their own, so \<^verbatim>\<open>TokenType::LET\<close> is \<open>Kw KW_LET\<close>,
  \<^verbatim>\<open>TokenType::DIVIDE\<close> is \<open>Op OP_DIVIDE\<close> and \<^verbatim>\<open>TokenType::ERROR\<close> is \<open>TT_ERROR\<close>.
  The prefixes keep the names apart from the enumerators of the intermediate
  representation's \<^verbatim>\<open>OpCode\<close> and \<^verbatim>\<open>Type\<close> (AND, OR, NOT, CONST, FLOAT, STRUCT, ...).
\<close>

datatype (plugins only: code) Keyword =
    KW_LET | KW_CONST | KW_FN | KW_ASYNC | KW_AWAIT | KW_COROUTINE | KW_STRUCT
  | KW_PROCESS | KW_CLASS | KW_INTERFACE | KW_IF | KW_ELSE | KW_FOR | KW_WHILE
  | KW_RETURN | KW_BREAK | KW_CONTINUE | KW_IMPORT | KW_EXPORT | KW_USE
  | KW_NAMESPACE | KW_CONSTRUCTOR | KW_THIS | KW_NEW | KW_YIELD | KW_TRY
  | KW_CATCH | KW_FINALLY | KW_NULL | KW_TRUE | KW_FALSE | KW_TYPEOF
  | KW_INSTANCEOF | KW_AS

datatype (plugins only: code) Operator =
    OP_PLUS | OP_MINUS | OP_MULTIPLY | OP_DIVIDE | OP_MODULO | OP_PLUS_PLUS
  | OP_MINUS_MINUS | OP_ASSIGN | OP_PLUS_ASSIGN | OP_MINUS_ASSIGN
  | OP_MULTIPLY_ASSIGN | OP_DIVIDE_ASSIGN | OP_MODULO_ASSIGN | OP_EQUAL
  | OP_NOT_EQUAL | OP_LESS | OP_LESS_EQUAL | OP_GREATER | OP_GREATER_EQUAL
  | OP_AND | OP_OR | OP_NOT | OP_BIT_AND | OP_BIT_OR | OP_BIT_XOR | OP_BIT_NOT
  | OP_LEFT_SHIFT | OP_RIGHT_SHIFT | OP_UNSIGNED_RIGHT_SHIFT
  | OP_LEFT_SHIFT_ASSIGN | OP_RIGHT_SHIFT_ASSIGN | OP_UNSIGNED_RIGHT_SHIFT_ASSIGN
  | OP_BIT_AND_ASSIGN | OP_BIT_OR_ASSIGN | OP_BIT_XOR_ASSIGN

datatype (plugins only: code) Punctuation =
    PU_SEMICOLON | PU_COLON | PU_COMMA | PU_DOT | PU_LEFT_PAREN | PU_RIGHT_PAREN
  | PU_LEFT_BRACE | PU_RIGHT_BRACE | PU_LEFT_BRACKET | PU_RIGHT_BRACKET
  | PU_ARROW | PU_DOUBLE_COLON

datatype TokenType =
    Kw Keyword | Op Operator | Pu Punctuation
  | TT_IDENTIFIER | TT_INTEGER | TT_FLOAT | TT_STRING | TT_CHARACTER
  | TT_END_OF_FILE | TT_ERROR

text \<open>
  \<^verbatim>\<open>class Token { TokenType type; std::string lexeme; int line; int column; }\<close>.
  Lines and columns are \<^verbatim>\<open>int\<close> in the source; they are mathematical integers here
  (no claim depends on a source text of more than \<open>2^31\<close> lines or columns).
\<close>

record Token =
  type :: TokenType
  lexeme :: string
  line :: int
  column :: int

section \<open>Lexer (lexer.h, lexer.cpp)\<close>

text \<open>
  The lexer's fields. \<^verbatim>\<open>ungotToken\<close> is a \<^verbatim>\<open>Token*\<close> that is either null or owns one
  token: an option. The keyword table is filled once by \<^verbatim>\<open>initKeywords\<close> and never
  changed, so it is a constant.
\<close>

record Lexer =
  source :: string
  position :: nat
  lline :: int
  lcolumn :: int
  ungotToken :: "Token option"

definition Lexer_new :: "string \<Rightarrow> Lexer" where
  "Lexer_new src = \<lparr>source = src, position = 0, lline = 1, lcolumn = 1, ungotToken = None\<rparr>"

definition keywords_map :: "string \<Rightarrow> TokenType option" where
  "keywords_map = map_of
    [(''let'', Kw KW_LET), (''const'', Kw KW_CONST), (''fn'', Kw KW_FN), (''async'', Kw KW_ASYNC),
     (''await'', Kw KW_AWAIT), (''coroutine'', Kw KW_COROUTINE), (''struct'', Kw KW_STRUCT),
     (''process'', Kw KW_PROCESS), (''class'', Kw KW_CLASS), (''interface'', Kw KW_INTERFACE),
     (''if'', Kw KW_IF), (''else'', Kw KW_ELSE), (''for'', Kw KW_FOR), (''while'', Kw KW_WHILE),
     (''return'', Kw KW_RETURN), (''break'', Kw KW_BREAK), (''continue'', Kw KW_CONTINUE),
     (''import'', Kw KW_IMPORT), (''export'', Kw KW_EXPORT), (''use'', Kw KW_USE),
     (''namespace'', Kw KW_NAMESPACE), (''constructor'', Kw KW_CONSTRUCTOR), (''this'', Kw KW_THIS),
     (''new'', Kw KW_NEW), (''yield'', Kw KW_YIELD), (''try'', Kw KW_TRY), (''catch'', Kw KW_CATCH),
     (''finally'', Kw KW_FINALLY), (''null'', Kw KW_NULL), (''true'', Kw KW_TRUE),
     (''false'', Kw KW_FALSE), (''typeof'', Kw KW_TYPEOF), (''instanceof'', Kw KW_INSTANCEOF),
     (''as'', Kw KW_AS)]"

text \<open>
  \<^verbatim>\<open>source[i]\<close>: the character at index \<open>i\<close>; \<^verbatim>\<open>std::string::operator[]\<close> yields the
  terminating NUL at \<open>i = size()\<close>. The lexer never reads beyond that index when it is
  driven through \<^verbatim>\<open>getNextToken\<close>; the model answers NUL there as well.
\<close>

definition charAt :: "string \<Rightarrow> nat \<Rightarrow> char" where
  "charAt src i = (if i < length src then src ! i else CHR 0x00)"

text \<open>\<^verbatim>\<open>source.substr(start, n)\<close> for \<open>start \<le> size()\<close>.\<close>

definition substr :: "string \<Rightarrow> nat \<Rightarrow> nat \<Rightarrow> string" where
  "substr src start n = take n (drop start src)"

definition isAtEnd :: "Lexer \<Rightarrow> bool" where
  "isAtEnd s = (position s \<ge> length (source s))"

definition peek :: "Lexer \<Rightarrow> char" where
  "peek s = (if isAtEnd s then CHR 0x00 else source s ! position s)"

text \<open>
  \<^verbatim>\<open>advance\<close>: read the current character, step the cursor and the column, and start a
  new line after a newline. Returns the character read and the new state.
\<close>

definition advance :: "Lexer \<Rightarrow> char \<times> Lexer" where
  "advance s =
     (let c = charAt (source s) (position s);
          s1 = s\<lparr>position := position s + 1, lcolumn := lcolumn s + 1\<rparr>
      in (c, if c = CHR 0x0A then s1\<lparr>lline := lline s1 + 1, lcolumn := 1\<rparr> else s1))"

definition match :: "char \<Rightarrow> Lexer \<Rightarrow> bool \<times> Lexer" where
  "match expected s =
     (if isAtEnd s \<or> source s ! position s \<noteq> expected then (False, s)
      else (True, s\<lparr>position := position s + 1, lcolumn := lcolumn s + 1\<rparr>))"

text \<open>\<^verbatim>\<open>isdigit\<close> and \<^verbatim>\<open>isalnum\<close> of the C locale.\<close>

definition isdigit :: "char \<Rightarrow> bool" where
  "isdigit c = (let n = (of_char c :: nat) in 48 \<le> n \<and> n \<le> 57)"

definition isalpha :: "char \<Rightarrow> bool" where
  "isalpha c = (let n = (of_char c :: nat) in (65 \<le> n \<and> n \<le> 90) \<or> (97 \<le> n \<and> n \<le> 122))"

definition isalnum :: "char \<Rightarrow> bool" where
  "isalnum c = (isalpha c \<or> isdigit c)"

text \<open>
  The loop \<^verbatim>\<open>while (!isAtEnd() && P(peek())) advance();\<close>, which the source writes out in
  \<^verbatim>\<open>skipComment\<close>, \<^verbatim>\<open>identifier\<close> and three times in \<^verbatim>\<open>number\<close>.
\<close>

function advanceWhile :: "(char \<Rightarrow> bool) \<Rightarrow> Lexer \<Rightarrow> Lexer" where
  "advanceWhile P s =
     (if \<not> isAtEnd s \<and> P (peek s) then advanceWhile P (snd (advance s)) else s)"
  by pat_completeness auto
termination
  by (relation "measure (\<lambda>(P, s). length (source s) - position s)")
     (auto simp: isAtEnd_def advance_def Let_def)

declare advanceWhile.simps [simp del]

definition skipComment :: "Lexer \<Rightarrow> Lexer" where
  "skipComment s = advanceWhile (\<lambda>c. c \<noteq> CHR 0x0A) s"

text \<open>The body of the block-comment branch of \<^verbatim>\<open>skipWhitespace\<close>: its inner loop.\<close>

function skipBlockBody :: "Lexer \<Rightarrow> Lexer" where
  "skipBlockBody s =
     (if \<not> isAtEnd s \<and> \<not> (peek s = CHR ''*'' \<and> charAt (source s) (position s + 1) = CHR ''/'')
      then skipBlockBody
             (snd (advance (if peek s = CHR 0x0A then s\<lparr>lline := lline s + 1, lcolumn := 1\<rparr> else s)))
      else s)"
  by pat_completeness auto
termination
  by (relation "measure (\<lambda>s. length (source s) - position s)")
     (auto simp: isAtEnd_def advance_def Let_def)

declare skipBlockBody.simps [simp del]

definition skipBlockComment :: "Lexer \<Rightarrow> Lexer" where
  "skipBlockComment s =
     (let s1 = snd (advance s);
          s2 = snd (advance s1);
          s3 = skipBlockBody s2
      in if \<not> isAtEnd s3 then snd (advance (snd (advance s3))) else s3)"

lemma advance_source [simp]: "source (snd (advance s)) = source s"
  by (simp add: advance_def Let_def)

lemma advance_position [simp]: "position (snd (advance s)) = position s + 1"
  by (simp add: advance_def Let_def)

lemma advance_ungot [simp]: "ungotToken (snd (advance s)) = ungotToken s"
  by (simp add: advance_def Let_def)

lemma advanceWhile_frame:
  "source (advanceWhile P s) = source s \<and> position s \<le> position (advanceWhile P s)
   \<and> ungotToken (advanceWhile P s) = ungotToken s"
proof (induction P s rule: advanceWhile.induct)
  case (1 P s)
  show ?case
  proof (cases "\<not> isAtEnd s \<and> P (peek s)")
    case True
    with 1 show ?thesis by (subst (1 2 3) advanceWhile.simps) auto
  next
    case False
    then show ?thesis by (subst (1 2 3) advanceWhile.simps) auto
  qed
qed

lemma advanceWhile_step:
  "\<not> isAtEnd s \<Longrightarrow> P (peek s) \<Longrightarrow> position s < position (advanceWhile P s)"
proof -
  assume a: "\<not> isAtEnd s" "P (peek s)"
  then have "advanceWhile P s = advanceWhile P (snd (advance s))"
    by (subst advanceWhile.simps) simp
  moreover have "position (snd (advance s)) \<le> position (advanceWhile P (snd (advance s)))"
    using advanceWhile_frame by blast
  ultimately show ?thesis by simp
qed

lemma skipBlockBody_frame:
  "source (skipBlockBody s) = source s \<and> position s \<le> position (skipBlockBody s)
   \<and> ungotToken (skipBlockBody s) = ungotToken s"
proof (induction s rule: skipBlockBody.induct)
  case (1 s)
  show ?case
  proof (cases "\<not> isAtEnd s \<and> \<not> (peek s = CHR ''*'' \<and> charAt (source s) (position s + 1) = CHR ''/'')")
    case True
    with 1 show ?thesis by (subst (1 2 3) skipBlockBody.simps) (auto split: if_splits)
  next
    case False
    then show ?thesis by (subst (1 2 3) skipBlockBody.simps) auto
  qed
qed

lemma skipBlockComment_frame:
  "source (skipBlockComment s) = source s \<and> position s < position (skipBlockComment s)
   \<and> ungotToken (skipBlockComment s) = ungotToken s"
proof -
  let ?s2 = "snd (advance (snd (advance s)))"
  have f: "source (skipBlockBody ?s2) = source ?s2" "position ?s2 \<le> position (skipBlockBody ?s2)"
          "ungotToken (skipBlockBody ?s2) = ungotToken ?s2"
    using skipBlockBody_frame [of ?s2] by auto
  then show ?thesis by (auto simp: skipBlockComment_def Let_def)
qed

text \<open>
  \<^verbatim>\<open>skipWhitespace\<close>. The branch \<^verbatim>\<open>case '/'\<close> of its switch is \<open>skipSlash\<close>: the source
  tests \<^verbatim>\<open>peek() == '/'\<close>, then \<^verbatim>\<open>peek() == '*'\<close>, where \<^verbatim>\<open>peek()\<close> is the very character
  \<^verbatim>\<open>c\<close> the switch dispatched on. The flag says how the branch leaves the switch:
  \<open>True\<close> for \<^verbatim>\<open>break\<close> (the loop goes on), \<open>False\<close> for \<^verbatim>\<open>return\<close>.
\<close>

definition skipSlash :: "Lexer \<Rightarrow> bool \<times> Lexer" where
  "skipSlash s =
     (if peek s = CHR ''/'' then (True, skipComment s)
      else if peek s = CHR ''*'' then (True, skipBlockComment s)
      else (False, s))"

lemma skipSlash_frame:
  assumes "\<not> isAtEnd s" "fst (skipSlash s)"
  shows "source (snd (skipSlash s)) = source s \<and> position s < position (snd (skipSlash s))
         \<and> ungotToken (snd (skipSlash s)) = ungotToken s"
proof (cases "peek s = CHR ''/''")
  case True
  then have "position s < position (skipComment s)"
    unfolding skipComment_def using assms(1) by (intro advanceWhile_step) auto
  moreover have "source (skipComment s) = source s" "ungotToken (skipComment s) = ungotToken s"
    unfolding skipComment_def using advanceWhile_frame by auto
  ultimately show ?thesis using True by (simp add: skipSlash_def)
next
  case False
  with assms(2) have "skipSlash s = (True, skipBlockComment s)"
    by (auto simp: skipSlash_def split: if_splits)
  then show ?thesis using skipBlockComment_frame [of s] by simp
qed

function skipWhitespace :: "Lexer \<Rightarrow> Lexer" where
  "skipWhitespace s =
     (if isAtEnd s then s
      else let c = peek s in
        if c = CHR '' '' \<or> c = CHR 0x09 \<or> c = CHR 0x0D \<or> c = CHR 0x0A
          then skipWhitespace (snd (advance s))
        else if c = CHR ''/''
          then (let r = skipSlash s in if fst r then skipWhitespace (snd r) else snd r)
        else s)"
  by pat_completeness auto
termination
proof (relation "measure (\<lambda>s. length (source s) - position s)", goal_cases)
  case 1
  show ?case by simp
next
  case (2 s c)
  then show ?case by (auto simp: isAtEnd_def)
next
  case (3 s c r)
  then show ?case using skipSlash_frame [of s] by (auto simp: isAtEnd_def)
qed

declare skipWhitespace.simps [simp del]

text \<open>
  \<^verbatim>\<open>makeToken\<close> and \<^verbatim>\<open>errorToken\<close>. The token's column is the cursor's column minus the
  length of the lexeme.
\<close>

definition makeToken :: "Lexer \<Rightarrow> TokenType \<Rightarrow> string \<Rightarrow> Token" where
  "makeToken s ty lx =
     \<lparr>type = ty, lexeme = lx, line = lline s, column = lcolumn s - int (length lx)\<rparr>"

definition errorToken :: "Lexer \<Rightarrow> string \<Rightarrow> Token" where
  "errorToken s message = \<lparr>type = TT_ERROR, lexeme = message, line = lline s, column = lcolumn s\<rparr>"

text \<open>
  Two abbreviations of the text of \<^verbatim>\<open>scanToken\<close>: \<open>tok\<close> is \<^verbatim>\<open>return makeToken(ty, lx)\<close>
  in state \<open>s\<close>, and \<open>ifMatch ch s f g\<close> is \<^verbatim>\<open>if (match(ch)) f else g\<close>.
\<close>

definition tok :: "Lexer \<Rightarrow> TokenType \<Rightarrow> string \<Rightarrow> Token \<times> Lexer" where
  "tok s ty lx = (makeToken s ty lx, s)"

definition ifMatch ::
  "char \<Rightarrow> Lexer \<Rightarrow> (Lexer \<Rightarrow> Token \<times> Lexer) \<Rightarrow> (Lexer \<Rightarrow> Token \<times> Lexer) \<Rightarrow> Token \<times> Lexer" where
  "ifMatch ch s f g = (let r = match ch s in if fst r then f (snd r) else g (snd r))"

definition identifier_tok :: "Lexer \<Rightarrow> Token \<times> Lexer" where
  "identifier_tok s =
     (let start = position s - 1;
          s1 = advanceWhile (\<lambda>c. isalnum c \<or> c = CHR ''_'') s;
          lx = substr (source s1) start (position s1 - start)
      in case keywords_map lx of
           Some ty \<Rightarrow> tok s1 ty lx
         | None \<Rightarrow> tok s1 TT_IDENTIFIER lx)"

definition number :: "Lexer \<Rightarrow> Token \<times> Lexer" where
  "number s =
     (let start = position s - 1;
          s1 = advanceWhile isdigit s;
          frac = (peek s1 = CHR ''.'' \<and> isdigit (charAt (source s1) (position s1 + 1)));
          s2 = (if frac then advanceWhile isdigit (snd (advance s1)) else s1);
          expo = ((peek s2 = CHR ''e'' \<or> peek s2 = CHR ''E'')
                  \<and> (isdigit (charAt (source s2) (position s2 + 1))
                     \<or> (charAt (source s2) (position s2 + 1) = CHR ''+''
                         \<or> charAt (source s2) (position s2 + 1) = CHR ''-'')
                       \<and> isdigit (charAt (source s2) (position s2 + 2))));
          s3 = (if expo
                then (let s' = snd (advance s2);
                          s'' = (if peek s' = CHR ''+'' \<or> peek s' = CHR ''-''
                                 then snd (advance s') else s')
                      in advanceWhile isdigit s'')
                else s2);
          isFloat = (frac \<or> expo);
          lx = substr (source s3) start (position s3 - start)
      in if isFloat then tok s3 TT_FLOAT lx else tok s3 TT_INTEGER lx)"

text \<open>The loop of \<^verbatim>\<open>string()\<close>: up to the closing quote, a backslash skips a character.\<close>

function stringLoop :: "Lexer \<Rightarrow> Lexer" where
  "stringLoop s =
     (if \<not> isAtEnd s \<and> peek s \<noteq> CHR 0x22
      then stringLoop (snd (advance (if peek s = CHR 0x5C then snd (advance s) else s)))
      else s)"
  by pat_completeness auto
termination
  by (relation "measure (\<lambda>s. length (source s) - position s)")
     (auto simp: isAtEnd_def)

declare stringLoop.simps [simp del]

definition string :: "Lexer \<Rightarrow> Token \<times> Lexer" where
  "string s =
     (let start = position s;
          s1 = stringLoop s
      in if isAtEnd s1 then (errorToken s1 ''Unterminated string'', s1)
         else (let s2 = snd (advance s1);
                   lx = substr (source s2) start (position s2 - start - 1)
               in tok s2 TT_STRING lx))"

definition character :: "Lexer \<Rightarrow> Token \<times> Lexer" where
  "character s =
     (let start = position s;
          s1 = (if peek s = CHR 0x5C then snd (advance s) else s);
          s2 = snd (advance s1)
      in if isAtEnd s2 \<or> peek s2 \<noteq> CHR 0x27 then (errorToken s2 ''Unterminated character'', s2)
         else (let s3 = snd (advance s2);
                   lx = substr (source s3) start (position s3 - start - 1)
               in tok s3 TT_CHARACTER lx))"

text \<open>
  \<^verbatim>\<open>scanToken\<close>: \<^verbatim>\<open>char c = advance();\<close> and the switch on \<open>c\<close>, in the order of the source.
  \<open>scanChar c s\<close> is the switch, in the state after the \<^verbatim>\<open>advance\<close>.
\<close>

definition scanChar :: "char \<Rightarrow> Lexer \<Rightarrow> Token \<times> Lexer" where
  "scanChar c s =
    (if c = CHR ''+'' then
       ifMatch (CHR ''+'') s (\<lambda>s. tok s (Op OP_PLUS_PLUS) ''++'')
         (\<lambda>s. ifMatch (CHR ''='') s (\<lambda>s. tok s (Op OP_PLUS_ASSIGN) ''+='')
           (\<lambda>s. tok s (Op OP_PLUS) ''+''))
     else if c = CHR ''-'' then
       ifMatch (CHR ''-'') s (\<lambda>s. tok s (Op OP_MINUS_MINUS) ''--'')
         (\<lambda>s. ifMatch (CHR ''='') s (\<lambda>s. tok s (Op OP_MINUS_ASSIGN) ''-='')
           (\<lambda>s. ifMatch (CHR ''>'') s (\<lambda>s. tok s (Pu PU_ARROW) ''->'')
             (\<lambda>s. tok s (Op OP_MINUS) ''-'')))
     else if c = CHR ''*'' then
       ifMatch (CHR ''='') s (\<lambda>s. tok s (Op OP_MULTIPLY_ASSIGN) ''*='')
         (\<lambda>s. tok s (Op OP_MULTIPLY) ''*'')
     else if c = CHR ''/'' then
       ifMatch (CHR ''='') s (\<lambda>s. tok s (Op OP_DIVIDE_ASSIGN) ''/='')
         (\<lambda>s. tok s (Op OP_DIVIDE) ''/'')
     else if c = CHR ''%'' then
       ifMatch (CHR ''='') s (\<lambda>s. tok s (Op OP_MODULO_ASSIGN) ''%='')
         (\<lambda>s. tok s (Op OP_MODULO) ''%'')
     else if c = CHR ''='' then
       ifMatch (CHR ''='') s (\<lambda>s. tok s (Op OP_EQUAL) ''=='')
         (\<lambda>s. tok s (Op OP_ASSIGN) ''='')
     else if c = CHR ''!'' then
       ifMatch (CHR ''='') s (\<lambda>s. tok s (Op OP_NOT_EQUAL) ''!='')
         (\<lambda>s. tok s (Op OP_NOT) ''!'')
     else if c = CHR ''<'' then
       ifMatch (CHR ''<'') s
         (\<lambda>s. ifMatch (CHR ''='') s (\<lambda>s. tok s (Op OP_LEFT_SHIFT_ASSIGN) ''<<='')
           (\<lambda>s. tok s (Op OP_LEFT_SHIFT) ''<<''))
         (\<lambda>s. ifMatch (CHR ''='') s (\<lambda>s. tok s (Op OP_LESS_EQUAL) ''<='')
           (\<lambda>s. tok s (Op OP_LESS) ''<''))
     else if c = CHR ''>'' then
       ifMatch (CHR ''>'') s
         (\<lambda>s. ifMatch (CHR ''>'') s
           (\<lambda>s. ifMatch (CHR ''='') s (\<lambda>s. tok s (Op OP_UNSIGNED_RIGHT_SHIFT_ASSIGN) ''>>>='')
             (\<lambda>s. tok s (Op OP_UNSIGNED_RIGHT_SHIFT) ''>>>''))
           (\<lambda>s. ifMatch (CHR ''='') s (\<lambda>s. tok s (Op OP_RIGHT_SHIFT_ASSIGN) ''>>='')
             (\<lambda>s. tok s (Op OP_RIGHT_SHIFT) ''>>'')))
         (\<lambda>s. ifMatch (CHR ''='') s (\<lambda>s. tok s (Op OP_GREATER_EQUAL) ''>='')
           (\<lambda>s. tok s (Op OP_GREATER) ''>''))
     else if c = CHR ''&'' then
       ifMatch (CHR ''&'') s (\<lambda>s. tok s (Op OP_AND) ''&&'')
         (\<lambda>s. ifMatch (CHR ''='') s (\<lambda>s. tok s (Op OP_BIT_AND_ASSIGN) ''&='')
           (\<lambda>s. tok s (Op OP_BIT_AND) ''&''))
     else if c = CHR ''|'' then
       ifMatch (CHR ''|'') s (\<lambda>s. tok s (Op OP_OR) ''||'')
         (\<lambda>s. ifMatch (CHR ''='') s (\<lambda>s. tok s (Op OP_BIT_OR_ASSIGN) ''|='')
           (\<lambda>s. tok s (Op OP_BIT_OR) ''|''))
     else if c = CHR ''^'' then
       ifMatch (CHR ''='') s (\<lambda>s. tok s (Op OP_BIT_XOR_ASSIGN) ''^='')
         (\<lambda>s. tok s (Op OP_BIT_XOR) ''^'')
     else if c = CHR ''~'' then tok s (Op OP_BIT_NOT) ''~''
     else if c = CHR '';'' then tok s (Pu PU_SEMICOLON) '';''
     else if c = CHR '':'' then
       ifMatch (CHR '':'') s (\<lambda>s. tok s (Pu PU_DOUBLE_COLON) ''::'')
         (\<lambda>s. tok s (Pu PU_COLON) '':'')
     else if c = CHR '','' then tok s (Pu PU_COMMA) '',''
     else if c = CHR ''.'' then
       (if isdigit (peek s) then number s else tok s (Pu PU_DOT) ''.'')
     else if c = CHR ''('' then tok s (Pu PU_LEFT_PAREN) ''(''
     else if c = CHR '')'' then tok s (Pu PU_RIGHT_PAREN) '')''
     else if c = CHR ''{'' then tok s (Pu PU_LEFT_BRACE) ''{''
     else if c = CHR ''}'' then tok s (Pu PU_RIGHT_BRACE) ''}''
     else if c = CHR ''['' then tok s (Pu PU_LEFT_BRACKET) ''[''
     else if c = CHR '']'' then tok s (Pu PU_RIGHT_BRACKET) '']''
     else if c = CHR 0x22 then string s
     else if c = CHR 0x27 then character s
     else if isdigit c then number s
     else if isalpha c \<or> c = CHR ''_'' then identifier_tok s
     else (errorToken s ''Unexpected character'', s))"

definition scanToken :: "Lexer \<Rightarrow> Token \<times> Lexer" where
  "scanToken s = (let r = advance s in scanChar (fst r) (snd r))"

text \<open>\<^verbatim>\<open>getNextToken\<close> and \<^verbatim>\<open>ungetToken\<close>: the one-slot pushback.\<close>

definition getNextToken :: "Lexer \<Rightarrow> Token \<times> Lexer" where
  "getNextToken s =
     (case ungotToken s of
        Some token \<Rightarrow> (token, s\<lparr>ungotToken := None\<rparr>)
      | None \<Rightarrow>
          (let s1 = skipWhitespace s
           in if isAtEnd s1 then (makeToken s1 TT_END_OF_FILE [], s1)
              else scanToken s1))"

definition ungetToken :: "Token \<Rightarrow> Lexer \<Rightarrow> Lexer" where
  "ungetToken token s = s\<lparr>ungotToken := Some token\<rparr>"

text \<open>The first \<open>n\<close> tokens a lexer hands out, by \<open>n\<close> calls of \<^verbatim>\<open>getNextToken\<close>.\<close>

fun tokens :: "nat \<Rightarrow> Lexer \<Rightarrow> Token list" where
  "tokens 0 s = []"
| "tokens (Suc n) s = (let r = getNextToken s in fst r # tokens n (snd r))"

text \<open>
  Every scanning function leaves the source text and the pushback slot alone and moves
  the cursor forward only; \<^verbatim>\<open>scanToken\<close> moves it by at least one character. This is what
  makes the parser's loop over ERROR tokens terminate.
\<close>

definition lexFrame :: "Lexer \<Rightarrow> Lexer \<Rightarrow> bool" where
  "lexFrame s s' = (source s' = source s \<and> position s \<le> position s' \<and> ungotToken s' = ungotToken s)"

lemma lexFrame_refl [simp]: "lexFrame s s"
  by (simp add: lexFrame_def)

lemma lexFrame_trans: "lexFrame s s1 \<Longrightarrow> lexFrame s1 s2 \<Longrightarrow> lexFrame s s2"
  by (auto simp: lexFrame_def)

lemma lexFrame_advance: "lexFrame s0 s \<Longrightarrow> lexFrame s0 (snd (advance s))"
  by (auto simp: lexFrame_def)

lemma lexFrame_advanceWhile: "lexFrame s0 s \<Longrightarrow> lexFrame s0 (advanceWhile P s)"
  using advanceWhile_frame [of P s] by (auto simp: lexFrame_def)

lemma lexFrame_match: "lexFrame s0 s \<Longrightarrow> lexFrame s0 (snd (match ch s))"
  by (auto simp: lexFrame_def match_def)

lemma lexFrame_tok: "lexFrame s0 s \<Longrightarrow> lexFrame s0 (snd (tok s ty lx))"
  by (simp add: tok_def)

lemma lexFrame_ifMatch:
  assumes "lexFrame s0 s"
    and "\<And>s'. lexFrame s0 s' \<Longrightarrow> lexFrame s0 (snd (f s'))"
    and "\<And>s'. lexFrame s0 s' \<Longrightarrow> lexFrame s0 (snd (g s'))"
  shows "lexFrame s0 (snd (ifMatch ch s f g))"
  using assms lexFrame_match [OF assms(1), of ch] by (simp add: ifMatch_def Let_def)

lemma lexFrame_identifier: "lexFrame s0 s \<Longrightarrow> lexFrame s0 (snd (identifier_tok s))"
  by (auto simp: identifier_tok_def Let_def tok_def split: option.splits intro: lexFrame_advanceWhile)

lemma lexFrame_number: "lexFrame s0 s \<Longrightarrow> lexFrame s0 (snd (number s))"
  by (auto simp: number_def Let_def tok_def intro!: lexFrame_advanceWhile lexFrame_advance)

lemma stringLoop_frame: "lexFrame s (stringLoop s)"
proof (induction s rule: stringLoop.induct)
  case (1 s)
  show ?case
  proof (cases "\<not> isAtEnd s \<and> peek s \<noteq> CHR 0x22")
    case True
    let ?n = "snd (advance (if peek s = CHR 0x5C then snd (advance s) else s))"
    have "lexFrame s ?n" by (auto intro!: lexFrame_advance)
    moreover have "lexFrame ?n (stringLoop ?n)" using 1 True by simp
    ultimately have "lexFrame s (stringLoop ?n)" by (rule lexFrame_trans)
    then show ?thesis using True by (subst stringLoop.simps) simp
  next
    case False
    then show ?thesis by (subst stringLoop.simps) auto
  qed
qed

lemma lexFrame_string: "lexFrame s0 s \<Longrightarrow> lexFrame s0 (snd (string s))"
  using stringLoop_frame [of s]
  by (auto simp: string_def Let_def tok_def intro!: lexFrame_advance elim: lexFrame_trans)

lemma lexFrame_character: "lexFrame s0 s \<Longrightarrow> lexFrame s0 (snd (character s))"
  by (auto simp: character_def Let_def tok_def intro!: lexFrame_advance)

lemma lexFrame_if:
  "lexFrame s0 (snd x) \<Longrightarrow> lexFrame s0 (snd y) \<Longrightarrow> lexFrame s0 (snd (if b then x else y))"
  by simp

lemma lexFrame_pair: "lexFrame s0 s \<Longrightarrow> lexFrame s0 (snd (t, s))"
  by simp

lemma lexFrame_scanChar: "lexFrame s0 s \<Longrightarrow> lexFrame s0 (snd (scanChar c s))"
  unfolding scanChar_def
  by (intro lexFrame_if lexFrame_ifMatch lexFrame_tok lexFrame_number lexFrame_identifier
        lexFrame_string lexFrame_character lexFrame_pair) assumption+

lemma scanToken_progress:
  "source (snd (scanToken s)) = source s \<and> position s < position (snd (scanToken s))
   \<and> ungotToken (snd (scanToken s)) = ungotToken s"
proof -
  have "lexFrame (snd (advance s)) (snd (scanChar (fst (advance s)) (snd (advance s))))"
    by (rule lexFrame_scanChar) simp
  then show ?thesis by (auto simp: scanToken_def Let_def lexFrame_def)
qed

lemma skipWhitespace_frame: "lexFrame s (skipWhitespace s)"
proof (induction s rule: skipWhitespace.induct)
  case (1 s)
  show ?case
  proof (cases "isAtEnd s")
    case True
    then show ?thesis by (subst skipWhitespace.simps) simp
  next
    case False
    note ne = False
    show ?thesis
    proof (cases "peek s = CHR '' '' \<or> peek s = CHR 0x09 \<or> peek s = CHR 0x0D \<or> peek s = CHR 0x0A")
      case True
      then have "lexFrame (snd (advance s)) (skipWhitespace (snd (advance s)))"
        using 1(1) [OF ne refl] by simp
      then have "lexFrame s (skipWhitespace (snd (advance s)))"
        by (auto simp: lexFrame_def)
      then show ?thesis using ne True by (subst skipWhitespace.simps) (simp add: Let_def)
    next
      case False
      note nws = False
      show ?thesis
      proof (cases "peek s = CHR ''/'' \<and> fst (skipSlash s)")
        case True
        then have "lexFrame (snd (skipSlash s)) (skipWhitespace (snd (skipSlash s)))"
          using 1(2) [OF ne refl nws _ refl] by simp
        moreover have "lexFrame s (snd (skipSlash s))"
          using skipSlash_frame [OF ne] True by (simp add: lexFrame_def)
        ultimately have "lexFrame s (skipWhitespace (snd (skipSlash s)))"
          using lexFrame_trans by blast
        then show ?thesis using ne nws True by (subst skipWhitespace.simps) (simp add: Let_def)
      next
        case False
        then show ?thesis using ne nws
          by (subst skipWhitespace.simps) (auto simp: Let_def skipSlash_def split: if_splits)
      qed
    qed
  qed
qed

definition lexMeasure :: "Lexer \<Rightarrow> nat" where
  "lexMeasure s = (case ungotToken s of None \<Rightarrow> 0 | Some t \<Rightarrow> 1) + 2 * (length (source s) - position s)"

lemma getNextToken_progress:
  assumes "type (fst (getNextToken s)) \<noteq> TT_END_OF_FILE"
  shows "lexMeasure (snd (getNextToken s)) < lexMeasure s"
proof (cases "ungotToken s")
  case (Some t)
  then show ?thesis by (simp add: getNextToken_def lexMeasure_def)
next
  case None
  let ?s1 = "skipWhitespace s"
  have f: "lexFrame s ?s1" by (rule skipWhitespace_frame)
  from assms None have ne: "\<not> isAtEnd ?s1"
    by (auto simp: getNextToken_def Let_def makeToken_def split: if_splits)
  then have g: "getNextToken s = scanToken ?s1" using None by (simp add: getNextToken_def Let_def)
  show ?thesis using scanToken_progress [of ?s1] f ne None
    by (auto simp: g lexMeasure_def lexFrame_def isAtEnd_def)
qed

section \<open>Parser: the token cursor and the error primitive (parser.h, parser.cpp)\<close>

text \<open>
  \<^verbatim>\<open>std::to_string\<close> of an \<^verbatim>\<open>int\<close>, which is also what \<^verbatim>\<open>operator<<\<close> prints for one: the
  decimal digits, with a minus sign for a negative number.
\<close>

definition digitChar :: "nat \<Rightarrow> char" where
  "digitChar d = ''0123456789'' ! d"

function natToString :: "nat \<Rightarrow> string" where
  "natToString n = (if n < 10 then [digitChar n] else natToString (n div 10) @ [digitChar (n mod 10)])"
  by pat_completeness auto
termination
  by (relation "measure id") auto

declare natToString.simps [simp del]

definition to_string :: "int \<Rightarrow> string" where
  "to_string i = (if i < 0 then CHR ''-'' # natToString (nat (- i)) else natToString (nat i))"

text \<open>
  The parser's fields, and \<open>cerr\<close>: the lines the parser has written to \<^verbatim>\<open>std::cerr\<close>, one
  entry for each \<^verbatim>\<open>std::endl\<close>.
\<close>

record Parser =
  lexer :: Lexer
  currentToken :: Token
  previousToken :: Token
  hadError :: bool
  cerr :: "string list"

definition Parser_error :: "string \<Rightarrow> Parser \<Rightarrow> Parser" where
  "Parser_error message p =
     p\<lparr>cerr := cerr p @
            [''Error at line '' @ to_string (line (currentToken p)) @ '', column ''
               @ to_string (column (currentToken p)) @ '': '' @ message],
       hadError := True\<rparr>"

text \<open>
  \<^verbatim>\<open>Parser::advance\<close>: \<^verbatim>\<open>previousToken = currentToken\<close>, then the loop that asks the lexer
  for tokens until one is not an ERROR token, reporting each ERROR token's message.
\<close>

function advanceLoop :: "Parser \<Rightarrow> Parser" where
  "advanceLoop p =
     (let r = getNextToken (lexer p);
          p1 = p\<lparr>lexer := snd r, currentToken := fst r\<rparr>
      in if type (currentToken p1) \<noteq> TT_ERROR then p1
         else advanceLoop (Parser_error (lexeme (currentToken p1)) p1))"
  by pat_completeness auto
termination
proof (relation "measure (\<lambda>p. lexMeasure (lexer p))", goal_cases)
  case 1
  show ?case by simp
next
  case (2 p r p1)
  then have "type (fst (getNextToken (lexer p))) \<noteq> TT_END_OF_FILE" by simp
  from getNextToken_progress [OF this] 2 show ?case by (simp add: Parser_error_def)
qed

declare advanceLoop.simps [simp del]

definition Parser_advance :: "Parser \<Rightarrow> Parser" where
  "Parser_advance p = advanceLoop (p\<lparr>previousToken := currentToken p\<rparr>)"

definition Parser_check :: "TokenType \<Rightarrow> Parser \<Rightarrow> bool" where
  "Parser_check ty p = (type (currentToken p) = ty)"

definition Parser_match :: "TokenType \<Rightarrow> Parser \<Rightarrow> bool \<times> Parser" where
  "Parser_match ty p = (if Parser_check ty p then (True, Parser_advance p) else (False, p))"

definition Parser_consume :: "TokenType \<Rightarrow> string \<Rightarrow> Parser \<Rightarrow> Token \<times> Parser" where
  "Parser_consume ty message p =
     (if Parser_check ty p
      then (let token = currentToken p in (token, Parser_advance p))
      else (let p1 = Parser_error message p in (currentToken p1, p1)))"

text \<open>
  The constructor: the lexer over the source text, no error, both tokens
  \<^verbatim>\<open>Token(END_OF_FILE, "", 0, 0)\<close>, and one \<^verbatim>\<open>advance()\<close>.
\<close>

definition Parser_new :: "string \<Rightarrow> Parser" where
  "Parser_new src =
     Parser_advance
       \<lparr>lexer = Lexer_new src,
        currentToken = \<lparr>type = TT_END_OF_FILE, lexeme = [], line = 0, column = 0\<rparr>,
        previousToken = \<lparr>type = TT_END_OF_FILE, lexeme = [], line = 0, column = 0\<rparr>,
        hadError = False, cerr = []\<rparr>"

section \<open>Abstract syntax (ast.h)\<close>

text \<open>
  The expression and statement classes, one constructor for each class, with the fields
  in the order of the class's constructor. A child that the parser may leave null, and
  that the analyzer and the generator test before use somewhere, is an option:
  the initializer of a variable or constant, the else branch, the three clauses of a
  \<^verbatim>\<open>for\<close>, the value of a \<^verbatim>\<open>return\<close>, the \<^verbatim>\<open>finally\<close> block. Every other child is
  built by a parser function that always returns a node.
\<close>

datatype Expr =
    BinaryExpr Expr string Expr
  | UnaryExpr string Expr
  | LiteralExpr string string
  | IdentifierExpr string
  | AssignExpr string Expr
  | CallExpr Expr "Expr list"
  | MemberExpr Expr string
  | ThisExpr
  | SuperExpr string
  | GroupingExpr Expr
  | ArrayExpr "Expr list"
  | ObjectExpr "(string \<times> Expr) list"
  | IndexExpr Expr Expr
  | LambdaExpr "(string \<times> string) list" Expr
  | AwaitExpr Expr
  | YieldExpr Expr

datatype Stmt =
    ExpressionStmt Expr
  | PrintStmt Expr
  | VarStmt string string "Expr option"
  | ConstStmt string string "Expr option"
  | BlockStmt "Stmt list"
  | IfStmt Expr Stmt "Stmt option"
  | WhileStmt Expr Stmt
  | ForStmt "Stmt option" "Expr option" "Expr option" Stmt
  | ReturnStmt "Expr option"
  | FunctionStmt string "(string \<times> string) list" string Stmt bool bool
  | ClassStmt string string "Stmt list"
  | StructStmt string "(string \<times> string) list"
  | TryStmt Stmt "Stmt list" "Stmt option"
  | CatchStmt string string Stmt
  | ThrowStmt Expr
  | ProcessStmt string Expr

text \<open>\<^verbatim>\<open>dynamic_cast<const IdentifierExpr*>\<close> and \<^verbatim>\<open>dynamic_cast<const LiteralExpr*>\<close>.\<close>

fun asIdentifierExpr :: "Expr \<Rightarrow> string option" where
  "asIdentifierExpr (IdentifierExpr name) = Some name"
| "asIdentifierExpr _ = None"

fun asLiteralExpr :: "Expr \<Rightarrow> (string \<times> string) option" where
  "asLiteralExpr (LiteralExpr val ty) = Some (val, ty)"
| "asLiteralExpr _ = None"

section \<open>Semantic analyzer (semantic_analyzer.h, semantic_analyzer.cpp)\<close>

text \<open>
  A scope holds three \<^verbatim>\<open>std::map\<close>s (the field \<^verbatim>\<open>functions\<close> is \<open>functions'\<close> here). The analyzer holds the vector of scopes, the error
  flag \<^verbatim>\<open>_hadError\<close> and, here, the lines it has written to \<^verbatim>\<open>std::cerr\<close>. The list
  \<open>scopes\<close> holds the vector from its back to its front: the head is \<^verbatim>\<open>scopes.back()\<close>,
  the innermost scope, \<^verbatim>\<open>push_back\<close> is \<open>#\<close>, \<^verbatim>\<open>pop_back\<close> is \<open>tl\<close>, and the loops from
  \<^verbatim>\<open>rbegin()\<close> to \<^verbatim>\<open>rend()\<close> run along the list.
\<close>

record Scope =
  variables :: "string \<rightharpoonup> string"
  functions' :: "string \<rightharpoonup> string"
  structs :: "string \<rightharpoonup> (string \<times> string) list"

record SemanticAnalyzer =
  sa_hadError :: bool
  scopes :: "Scope list"
  sa_cerr :: "string list"

definition sa_error :: "string \<Rightarrow> SemanticAnalyzer \<Rightarrow> SemanticAnalyzer" where
  "sa_error message a = a\<lparr>sa_cerr := sa_cerr a @ [''Semantic error: '' @ message], sa_hadError := True\<rparr>"

definition enterScope :: "SemanticAnalyzer \<Rightarrow> SemanticAnalyzer" where
  "enterScope a =
     a\<lparr>scopes := \<lparr>variables = Map.empty, functions' = Map.empty, structs = Map.empty\<rparr> # scopes a\<rparr>"

definition exitScope :: "SemanticAnalyzer \<Rightarrow> SemanticAnalyzer" where
  "exitScope a = (if scopes a \<noteq> [] then a\<lparr>scopes := tl (scopes a)\<rparr> else a)"

definition isVariableDefined :: "string \<Rightarrow> SemanticAnalyzer \<Rightarrow> bool" where
  "isVariableDefined name a = list_ex (\<lambda>sc. variables sc name \<noteq> None) (scopes a)"

definition isFunctionDefined :: "string \<Rightarrow> SemanticAnalyzer \<Rightarrow> bool" where
  "isFunctionDefined name a = list_ex (\<lambda>sc. functions' sc name \<noteq> None) (scopes a)"

definition isStructDefined :: "string \<Rightarrow> SemanticAnalyzer \<Rightarrow> bool" where
  "isStructDefined name a = list_ex (\<lambda>sc. structs sc name \<noteq> None) (scopes a)"

definition defineVariable :: "string \<Rightarrow> string \<Rightarrow> SemanticAnalyzer \<Rightarrow> SemanticAnalyzer" where
  "defineVariable name ty a =
     (case scopes a of
        [] \<Rightarrow> a
      | sc # rest \<Rightarrow> a\<lparr>scopes := sc\<lparr>variables := (variables sc)(name \<mapsto> ty)\<rparr> # rest\<rparr>)"

definition defineFunction :: "string \<Rightarrow> string \<Rightarrow> SemanticAnalyzer \<Rightarrow> SemanticAnalyzer" where
  "defineFunction name returnType a =
     (case scopes a of
        [] \<Rightarrow> a
      | sc # rest \<Rightarrow> a\<lparr>scopes := sc\<lparr>functions' := (functions' sc)(name \<mapsto> returnType)\<rparr> # rest\<rparr>)"

definition defineStruct ::
  "string \<Rightarrow> (string \<times> string) list \<Rightarrow> SemanticAnalyzer \<Rightarrow> SemanticAnalyzer" where
  "defineStruct name flds a =
     (case scopes a of
        [] \<Rightarrow> a
      | sc # rest \<Rightarrow> a\<lparr>scopes := sc\<lparr>structs := (structs sc)(name \<mapsto> flds)\<rparr> # rest\<rparr>)"

text \<open>
  The loops that fetch a variable's type or a function's return type: the first scope,
  from the innermost outwards, that has the name.
\<close>

fun lookupVariable :: "string \<Rightarrow> Scope list \<Rightarrow> string option" where
  "lookupVariable name [] = None"
| "lookupVariable name (sc # rest) =
     (case variables sc name of Some ty \<Rightarrow> Some ty | None \<Rightarrow> lookupVariable name rest)"

fun lookupFunction :: "string \<Rightarrow> Scope list \<Rightarrow> string option" where
  "lookupFunction name [] = None"
| "lookupFunction name (sc # rest) =
     (case functions' sc name of Some ty \<Rightarrow> Some ty | None \<Rightarrow> lookupFunction name rest)"

text \<open>The constructor: the global scope with the built-in names.\<close>

definition SemanticAnalyzer_new :: SemanticAnalyzer where
  "SemanticAnalyzer_new =
     fold (\<lambda>(name, ty). defineVariable name ty)
       [(''print'', ''function''), (''println'', ''function''), (''error'', ''function''),
        (''assert'', ''function''), (''len'', ''function''), (''toString'', ''function''),
        (''parseInt'', ''function''), (''parseFloat'', ''function''), (''isNaN'', ''function''),
        (''isFinite'', ''function''), (''Math'', ''object''), (''Date'', ''object''),
        (''Array'', ''object''), (''Object'', ''object''), (''String'', ''object''),
        (''Number'', ''object''), (''Boolean'', ''object''), (''Error'', ''object'')]
       (enterScope \<lparr>sa_hadError = False, scopes = [], sa_cerr = []\<rparr>)"

text \<open>
  The part of \<^verbatim>\<open>analyzeBinaryExpr\<close> after both operands have been analyzed: the
  compatibility check and the result type. The last comparison of the third branch is
  \<^verbatim>\<open>expr->op == ">"\<close> a second time, as in the source.
\<close>

definition binaryResult ::
  "string \<Rightarrow> string \<Rightarrow> string \<Rightarrow> SemanticAnalyzer \<Rightarrow> string \<times> SemanticAnalyzer" where
  "binaryResult op leftType rightType a0 =
     (let a = (if leftType \<noteq> rightType \<and> leftType \<noteq> ''any'' \<and> rightType \<noteq> ''any''
               then sa_error (''Type mismatch in binary expression: expected '' @ [CHR 0x27] @ leftType
                                @ [CHR 0x27] @ '', got '' @ [CHR 0x27] @ rightType @ [CHR 0x27] @ ''.'') a0
               else a0)
      in if op = ''+'' then
           (if leftType = ''string'' \<or> rightType = ''string'' then (''string'', a)
            else if leftType = ''number'' \<or> rightType = ''number'' then (''number'', a)
            else (leftType, a))
         else if op = ''-'' \<or> op = ''*'' \<or> op = ''/'' \<or> op = ''%'' then
           (if leftType = ''number'' \<or> rightType = ''number'' then (''number'', a)
            else (leftType, a))
         else if op = ''=='' \<or> op = ''!='' \<or> op = ''<'' \<or> op = ''<='' \<or> op = ''>'' \<or> op = ''>'' then
           (''bool'', a)
         else if op = ''&&'' \<or> op = ''||'' then
           (let a1 = (if leftType \<noteq> ''bool'' \<and> leftType \<noteq> ''any''
                      then sa_error (''Logical operator '' @ [CHR 0x27] @ op @ [CHR 0x27]
                             @ '' expects boolean operands, got '' @ [CHR 0x27] @ leftType @ [CHR 0x27] @ ''.'') a
                      else a);
                a2 = (if rightType \<noteq> ''bool'' \<and> rightType \<noteq> ''any''
                      then sa_error (''Logical operator '' @ [CHR 0x27] @ op @ [CHR 0x27]
                             @ '' expects boolean operands, got '' @ [CHR 0x27] @ rightType @ [CHR 0x27] @ ''.'') a1
                      else a1)
            in (''bool'', a2))
         else (leftType, a))"

definition unaryResult :: "string \<Rightarrow> string \<Rightarrow> SemanticAnalyzer \<Rightarrow> string \<times> SemanticAnalyzer" where
  "unaryResult op rightType a =
     (if op = ''!'' \<or> op = ''!'' then
        (''bool'', if rightType \<noteq> ''bool'' \<and> rightType \<noteq> ''any''
                  then sa_error (''Logical operator '' @ [CHR 0x27] @ op @ [CHR 0x27]
                         @ '' expects boolean operand, got '' @ [CHR 0x27] @ rightType @ [CHR 0x27] @ ''.'') a
                  else a)
      else if op = ''-'' then
        (''number'', if rightType \<noteq> ''number'' \<and> rightType \<noteq> ''any''
                    then sa_error (''Unary operator '' @ [CHR 0x27] @ ''-'' @ [CHR 0x27]
                           @ '' expects number operand, got '' @ [CHR 0x27] @ rightType @ [CHR 0x27] @ ''.'') a
                    else a)
      else (rightType, a))"

definition analyzeIdentifierExpr :: "string \<Rightarrow> SemanticAnalyzer \<Rightarrow> string \<times> SemanticAnalyzer" where
  "analyzeIdentifierExpr name a =
     (if \<not> isVariableDefined name a \<and> \<not> isFunctionDefined name a
      then (''any'', sa_error (''Undefined identifier '' @ [CHR 0x27] @ name @ [CHR 0x27] @ ''.'') a)
      else if isVariableDefined name a
      then (case lookupVariable name (scopes a) of Some ty \<Rightarrow> (ty, a) | None \<Rightarrow> (''any'', a))
      else if isFunctionDefined name a
      then (case lookupFunction name (scopes a) of Some ty \<Rightarrow> (ty, a) | None \<Rightarrow> (''any'', a))
      else (''any'', a))"

text \<open>The part of \<^verbatim>\<open>analyzeAssignExpr\<close> after the value has been analyzed.\<close>

definition assignResult :: "string \<Rightarrow> string \<Rightarrow> SemanticAnalyzer \<Rightarrow> string \<times> SemanticAnalyzer" where
  "assignResult name valueType a =
     (if \<not> isVariableDefined name a
      then (''any'', sa_error (''Undefined variable '' @ [CHR 0x27] @ name @ [CHR 0x27] @ ''.'') a)
      else (let varType = (case lookupVariable name (scopes a) of Some ty \<Rightarrow> ty | None \<Rightarrow> ''any'')
            in if varType \<noteq> ''any'' \<and> valueType \<noteq> varType
               then (valueType, sa_error (''Type mismatch in assignment: expected '' @ [CHR 0x27] @ varType
                                  @ [CHR 0x27] @ '', got '' @ [CHR 0x27] @ valueType @ [CHR 0x27] @ ''.'') a)
               else (valueType, a)))"

text \<open>The check of the callee's name in \<^verbatim>\<open>analyzeCallExpr\<close>.\<close>

definition checkCallee :: "Expr \<Rightarrow> SemanticAnalyzer \<Rightarrow> SemanticAnalyzer" where
  "checkCallee callee a =
     (case asIdentifierExpr callee of
        Some funcName \<Rightarrow>
          (if \<not> isFunctionDefined funcName a \<and> funcName \<noteq> ''println'' \<and> funcName \<noteq> ''print''
              \<and> funcName \<noteq> ''error''
           then sa_error (''Undefined function '' @ [CHR 0x27] @ funcName @ [CHR 0x27] @ ''.'') a
           else a)
      | None \<Rightarrow> a)"

text \<open>The test of a declared or inferred type in \<^verbatim>\<open>analyzeVarStatement\<close> and \<^verbatim>\<open>analyzeConstStatement\<close>.\<close>

definition checkTypeName :: "string \<Rightarrow> SemanticAnalyzer \<Rightarrow> SemanticAnalyzer" where
  "checkTypeName ty a =
     (if ty \<noteq> ''any'' \<and> ty \<noteq> ''int'' \<and> ty \<noteq> ''float'' \<and> ty \<noteq> ''bool'' \<and> ty \<noteq> ''string''
         \<and> \<not> isStructDefined ty a
      then sa_error (''Unknown type '' @ [CHR 0x27] @ ty @ [CHR 0x27] @ ''.'') a
      else a)"

definition checkInitType :: "string \<Rightarrow> string \<Rightarrow> SemanticAnalyzer \<Rightarrow> SemanticAnalyzer" where
  "checkInitType ty initType a =
     (if ty \<noteq> ''any'' \<and> initType \<noteq> ty
      then sa_error (''Type mismatch: expected '' @ [CHR 0x27] @ ty @ [CHR 0x27] @ '', got ''
                       @ [CHR 0x27] @ initType @ [CHR 0x27] @ ''.'') a
      else a)"

definition checkCondition :: "string \<Rightarrow> string \<Rightarrow> SemanticAnalyzer \<Rightarrow> SemanticAnalyzer" where
  "checkCondition what conditionType a =
     (if conditionType \<noteq> ''bool'' \<and> conditionType \<noteq> ''any''
      then sa_error (what @ '' condition must be a boolean, got '' @ [CHR 0x27] @ conditionType
                       @ [CHR 0x27] @ ''.'') a
      else a)"

text \<open>
  \<^verbatim>\<open>analyzeExpression\<close> and \<^verbatim>\<open>analyzeStatement\<close> with the functions they dispatch to.
  \<open>analyzeExpressions\<close> and \<open>analyzeStatements\<close> are the loops over argument lists and
  statement lists. \<^verbatim>\<open>analyzeExpression\<close> answers \<open>any\<close> for a null pointer and
  \<^verbatim>\<open>analyzeStatement\<close> returns at once for one; the options below are handled the same way.
\<close>

fun analyzeExpression :: "Expr \<Rightarrow> SemanticAnalyzer \<Rightarrow> string \<times> SemanticAnalyzer"
  and analyzeExpressions :: "Expr list \<Rightarrow> SemanticAnalyzer \<Rightarrow> SemanticAnalyzer" where
  "analyzeExpression (BinaryExpr left op right) a =
     (let (leftType, a1) = analyzeExpression left a;
          (rightType, a2) = analyzeExpression right a1
      in binaryResult op leftType rightType a2)"
| "analyzeExpression (UnaryExpr op right) a =
     (let (rightType, a1) = analyzeExpression right a in unaryResult op rightType a1)"
| "analyzeExpression (LiteralExpr val ty) a = (ty, a)"
| "analyzeExpression (IdentifierExpr name) a = analyzeIdentifierExpr name a"
| "analyzeExpression (AssignExpr name val) a =
     (let (valueType, a1) = analyzeExpression val a in assignResult name valueType a1)"
| "analyzeExpression (CallExpr callee arguments) a =
     (let (calleeType, a1) = analyzeExpression callee a;
          a2 = checkCallee callee a1;
          a3 = analyzeExpressions arguments a2
      in (''any'', a3))"
| "analyzeExpression (MemberExpr object name) a =
     (let (objectType, a1) = analyzeExpression object a in (''any'', a1))"
| "analyzeExpression ThisExpr a = (''any'', a)"
| "analyzeExpression (SuperExpr method) a = (''any'', a)"
| "analyzeExpression (GroupingExpr expression) a = analyzeExpression expression a"
| "analyzeExpression (ArrayExpr elements) a = (''any'', a)"
| "analyzeExpression (ObjectExpr properties) a = (''any'', a)"
| "analyzeExpression (IndexExpr object index) a = (''any'', a)"
| "analyzeExpression (LambdaExpr parameters body) a = (''any'', a)"
| "analyzeExpression (AwaitExpr expression) a = (''any'', a)"
| "analyzeExpression (YieldExpr expression) a = (''any'', a)"
| "analyzeExpressions [] a = a"
| "analyzeExpressions (arg # rest) a = analyzeExpressions rest (snd (analyzeExpression arg a))"

definition analyzeExpressionOpt :: "Expr option \<Rightarrow> SemanticAnalyzer \<Rightarrow> string \<times> SemanticAnalyzer" where
  "analyzeExpressionOpt e a = (case e of None \<Rightarrow> (''any'', a) | Some e' \<Rightarrow> analyzeExpression e' a)"

text \<open>
  The body shared, word for word, by \<^verbatim>\<open>analyzeVarStatement\<close> and \<^verbatim>\<open>analyzeConstStatement\<close>
  up to the kind named in the first message and the constant's last \<^verbatim>\<open>else\<close>. An
  initializer is analyzed twice when no type is declared: once to infer the type, once
  for the comparison.
\<close>

definition analyzeDeclaration ::
  "bool \<Rightarrow> string \<Rightarrow> string \<Rightarrow> Expr option \<Rightarrow> SemanticAnalyzer \<Rightarrow> SemanticAnalyzer" where
  "analyzeDeclaration isConst name declared initializer a =
     (let a1 = (if isVariableDefined name a
                then sa_error ((if isConst then ''Constant '' else ''Variable '') @ [CHR 0x27] @ name
                                 @ [CHR 0x27] @ '' is already defined.'') a
                else a);
          (ty, a2) = (if declared = []
                      then (case initializer of
                              Some e \<Rightarrow> analyzeExpression e a1
                            | None \<Rightarrow> (''any'', a1))
                      else (declared, a1));
          a3 = checkTypeName ty a2;
          a4 = defineVariable name ty a3
      in case initializer of
           Some e \<Rightarrow> (let (initType, a5) = analyzeExpression e a4 in checkInitType ty initType a5)
         | None \<Rightarrow>
             (if isConst
              then sa_error (''Constant '' @ [CHR 0x27] @ name @ [CHR 0x27] @ '' must be initialized.'') a4
              else a4))"

fun defineParameters :: "(string \<times> string) list \<Rightarrow> SemanticAnalyzer \<Rightarrow> SemanticAnalyzer" where
  "defineParameters [] a = a"
| "defineParameters ((pname, ptype) # rest) a =
     defineParameters rest (defineVariable pname (if ptype = [] then ''any'' else ptype) a)"

fun analyzeStatement :: "Stmt \<Rightarrow> SemanticAnalyzer \<Rightarrow> SemanticAnalyzer"
  and analyzeStatements :: "Stmt list \<Rightarrow> SemanticAnalyzer \<Rightarrow> SemanticAnalyzer" where
  "analyzeStatement (BlockStmt statements) a = exitScope (analyzeStatements statements (enterScope a))"
| "analyzeStatement (VarStmt name ty initializer) a = analyzeDeclaration False name ty initializer a"
| "analyzeStatement (ConstStmt name ty initializer) a = analyzeDeclaration True name ty initializer a"
| "analyzeStatement (FunctionStmt name parameters returnType body isAsync isCoroutine) a =
     (let a1 = (if isFunctionDefined name a
                then sa_error (''Function '' @ [CHR 0x27] @ name @ [CHR 0x27] @ '' is already defined.'') a
                else a);
          a2 = defineFunction name returnType a1;
          a3 = defineParameters parameters (enterScope a2);
          a4 = analyzeStatement body a3
      in exitScope a4)"
| "analyzeStatement (ClassStmt name superclass methods) a =
     (let a1 = (if isStructDefined name a
                then sa_error (''Class '' @ [CHR 0x27] @ name @ [CHR 0x27] @ '' is already defined.'') a
                else a);
          a2 = (if superclass \<noteq> [] \<and> \<not> isStructDefined superclass a1
                then sa_error (''Superclass '' @ [CHR 0x27] @ superclass @ [CHR 0x27] @ '' is not defined.'') a1
                else a1)
      in exitScope (analyzeStatements methods (enterScope a2)))"
| "analyzeStatement (StructStmt name flds) a =
     (let a1 = (if isStructDefined name a
                then sa_error (''Struct '' @ [CHR 0x27] @ name @ [CHR 0x27] @ '' is already defined.'') a
                else a)
      in defineStruct name flds a1)"
| "analyzeStatement (IfStmt condition thenBranch elseBranch) a =
     (let (conditionType, a1) = analyzeExpression condition a;
          a2 = checkCondition ''If'' conditionType a1;
          a3 = analyzeStatement thenBranch a2
      in case elseBranch of Some e \<Rightarrow> analyzeStatement e a3 | None \<Rightarrow> a3)"
| "analyzeStatement (WhileStmt condition body) a =
     (let (conditionType, a1) = analyzeExpression condition a;
          a2 = checkCondition ''While'' conditionType a1
      in analyzeStatement body a2)"
| "analyzeStatement (ForStmt initializer condition increment body) a =
     (let a1 = (case initializer of Some i \<Rightarrow> analyzeStatement i a | None \<Rightarrow> a);
          a2 = (case condition of
                  Some c \<Rightarrow> (let (conditionType, a') = analyzeExpression c a1
                             in checkCondition ''For'' conditionType a')
                | None \<Rightarrow> a1);
          a3 = (case increment of Some i \<Rightarrow> snd (analyzeExpression i a2) | None \<Rightarrow> a2)
      in analyzeStatement body a3)"
| "analyzeStatement (ReturnStmt val) a =
     (case val of Some v \<Rightarrow> snd (analyzeExpression v a) | None \<Rightarrow> a)"
| "analyzeStatement (ExpressionStmt expression) a = snd (analyzeExpression expression a)"
| "analyzeStatement (PrintStmt expression) a = snd (analyzeExpression expression a)"
| "analyzeStatement (TryStmt body catches finally) a =
     (let a1 = analyzeStatement body a;
          a2 = analyzeStatements catches a1
      in case finally of Some f \<Rightarrow> analyzeStatement f a2 | None \<Rightarrow> a2)"
| "analyzeStatement (CatchStmt name ty body) a =
     (let a1 = defineVariable name (if ty = [] then ''Error'' else ty) (enterScope a)
      in exitScope (analyzeStatement body a1))"
| "analyzeStatement (ThrowStmt expression) a = snd (analyzeExpression expression a)"
| "analyzeStatement (ProcessStmt ident body) a = snd (analyzeExpression body a)"
| "analyzeStatements [] a = a"
| "analyzeStatements (stmt # rest) a = analyzeStatements rest (analyzeStatement stmt a)"

definition analyze :: "Stmt list \<Rightarrow> SemanticAnalyzer \<Rightarrow> SemanticAnalyzer" where
  "analyze statements a = analyzeStatements statements a"

definition hadError_sa :: "SemanticAnalyzer \<Rightarrow> bool" where
  "hadError_sa a = sa_hadError a"

section \<open>Intermediate representation (ir.h, ir.cpp)\<close>

datatype (plugins only: code) OpCode =
    ADD | SUB | MUL | DIV | MOD
  | EQ | NE | LT | LE | GT | GE
  | AND | OR | NOT
  | BIT_AND | BIT_OR | BIT_XOR | SHL | SHR | USHR
  | LOAD | STORE | ALLOC | FREE
  | BR | COND_BR | PHI | CALL | RET
  | OC_CONST | GLOBAL | ALLOCA | GETELEMENTPTR

text \<open>\<^verbatim>\<open>OpCode::CONST\<close> is \<open>OC_CONST\<close>: the plain name is reserved in Isabelle's term syntax.\<close>

datatype Type =
    VOID | BOOL | INT8 | INT16 | INT32 | INT64 | FLOAT | DOUBLE | POINTER | ARRAY | STRUCT

text \<open>
  The instruction classes. \<^verbatim>\<open>Instruction::name\<close> belongs to the base class, so an
  instruction is its name together with the fields of its class; an instruction that is
  given no name has the empty string there. The four classes of the source all have a
  field \<^verbatim>\<open>name\<close>; it is \<open>instr_name\<close>, \<open>block_name\<close>, \<open>func_name\<close> and \<open>mod_name\<close> here.
\<close>

datatype InstKind =
    ConstInst Type string
  | BinaryInst OpCode Type string string
  | UnaryInst OpCode Type string
  | CondBrInst string string string
  | BrInst string
  | CallInst Type string "string list"
  | RetInst Type string
  | AllocaInst Type
  | LoadInst Type string
  | StoreInst Type string string
  | PhiInst Type "(string \<times> string) list"

record Instruction =
  instr_name :: string
  kind :: InstKind

record BasicBlock =
  block_name :: string
  instructions :: "Instruction list"

record Function =
  func_name :: string
  returnType :: Type
  basicBlocks :: "BasicBlock list"

record Module =
  mod_name :: string
  functions_of :: "Function list"

definition addInstruction :: "Instruction \<Rightarrow> BasicBlock \<Rightarrow> BasicBlock" where
  "addInstruction instr b = b\<lparr>instructions := instructions b @ [instr]\<rparr>"

definition addBasicBlock :: "BasicBlock \<Rightarrow> Function \<Rightarrow> Function" where
  "addBasicBlock b f = f\<lparr>basicBlocks := basicBlocks f @ [b]\<rparr>"

definition addFunction :: "Function \<Rightarrow> Module \<Rightarrow> Module" where
  "addFunction f m = m\<lparr>functions_of := functions_of m @ [f]\<rparr>"

fun getOpcode :: "InstKind \<Rightarrow> OpCode" where
  "getOpcode (ConstInst ty v) = OC_CONST"
| "getOpcode (BinaryInst opcode ty l r) = opcode"
| "getOpcode (UnaryInst opcode ty x) = opcode"
| "getOpcode (CondBrInst c t f) = COND_BR"
| "getOpcode (BrInst t) = BR"
| "getOpcode (CallInst ty f args) = CALL"
| "getOpcode (RetInst ty v) = RET"
| "getOpcode (AllocaInst ty) = ALLOCA"
| "getOpcode (LoadInst ty p) = LOAD"
| "getOpcode (StoreInst ty v p) = STORE"
| "getOpcode (PhiInst ty incoming) = PHI"

fun typeToString :: "Type \<Rightarrow> string" where
  "typeToString VOID = ''void''"
| "typeToString BOOL = ''i1''"
| "typeToString INT8 = ''i8''"
| "typeToString INT16 = ''i16''"
| "typeToString INT32 = ''i32''"
| "typeToString INT64 = ''i64''"
| "typeToString FLOAT = ''float''"
| "typeToString DOUBLE = ''double''"
| "typeToString POINTER = ''ptr''"
| "typeToString ARRAY = ''array''"
| "typeToString STRUCT = ''struct''"

fun opcodeToString :: "OpCode \<Rightarrow> string" where
  "opcodeToString ADD = ''add''"
| "opcodeToString SUB = ''sub''"
| "opcodeToString MUL = ''mul''"
| "opcodeToString DIV = ''div''"
| "opcodeToString MOD = ''mod''"
| "opcodeToString EQ = ''eq''"
| "opcodeToString NE = ''ne''"
| "opcodeToString LT = ''lt''"
| "opcodeToString LE = ''le''"
| "opcodeToString GT = ''gt''"
| "opcodeToString GE = ''ge''"
| "opcodeToString AND = ''and''"
| "opcodeToString OR = ''or''"
| "opcodeToString NOT = ''not''"
| "opcodeToString BIT_AND = ''bitand''"
| "opcodeToString BIT_OR = ''bitor''"
| "opcodeToString BIT_XOR = ''bitxor''"
| "opcodeToString SHL = ''shl''"
| "opcodeToString SHR = ''shr''"
| "opcodeToString USHR = ''ushr''"
| "opcodeToString LOAD = ''load''"
| "opcodeToString STORE = ''store''"
| "opcodeToString ALLOC = ''alloc''"
| "opcodeToString FREE = ''free''"
| "opcodeToString BR = ''br''"
| "opcodeToString COND_BR = ''cond_br''"
| "opcodeToString PHI = ''phi''"
| "opcodeToString CALL = ''call''"
| "opcodeToString RET = ''ret''"
| "opcodeToString OC_CONST = ''const''"
| "opcodeToString GLOBAL = ''global''"
| "opcodeToString ALLOCA = ''alloca''"
| "opcodeToString GETELEMENTPTR = ''getelementptr''"

text \<open>The loops of \<^verbatim>\<open>CallInst::toString\<close> and \<^verbatim>\<open>PhiInst::toString\<close>: entries joined by a comma.\<close>

fun joinComma :: "string list \<Rightarrow> string" where
  "joinComma [] = []"
| "joinComma [x] = x"
| "joinComma (x # y # rest) = x @ '', '' @ joinComma (y # rest)"

fun InstKind_toString :: "InstKind \<Rightarrow> string" where
  "InstKind_toString (ConstInst ty v) = ''const '' @ typeToString ty @ '' '' @ v"
| "InstKind_toString (BinaryInst opcode ty l r) =
     opcodeToString opcode @ '' '' @ typeToString ty @ '' '' @ l @ '', '' @ r"
| "InstKind_toString (UnaryInst opcode ty x) =
     opcodeToString opcode @ '' '' @ typeToString ty @ '' '' @ x"
| "InstKind_toString (CondBrInst c t f) =
     ''cond_br i1 '' @ c @ '', label %'' @ t @ '', label %'' @ f"
| "InstKind_toString (BrInst t) = ''br label %'' @ t"
| "InstKind_toString (CallInst ty f args) =
     ''call '' @ typeToString ty @ '' @'' @ f @ ''('' @ joinComma args @ '')''"
| "InstKind_toString (RetInst ty v) =
     (if ty = VOID then ''ret void'' else ''ret '' @ typeToString ty @ '' '' @ v)"
| "InstKind_toString (AllocaInst ty) = ''alloca '' @ typeToString ty"
| "InstKind_toString (LoadInst ty p) = ''load '' @ typeToString ty @ '', ptr '' @ p"
| "InstKind_toString (StoreInst ty v p) = ''store '' @ typeToString ty @ '' '' @ v @ '', ptr '' @ p"
| "InstKind_toString (PhiInst ty incoming) =
     ''phi '' @ typeToString ty @ '' ['' @ joinComma (map (\<lambda>(v, l). v @ '', label %'' @ l) incoming) @ '']''"

definition Instruction_line :: "Instruction \<Rightarrow> string" where
  "Instruction_line instr =
     (if instr_name instr \<noteq> [] then ''  '' @ instr_name instr @ '' = '' else ''  '')
       @ InstKind_toString (kind instr) @ [CHR 0x0A]"

definition BasicBlock_toString :: "BasicBlock \<Rightarrow> string" where
  "BasicBlock_toString b = block_name b @ '':'' @ [CHR 0x0A] @ concat (map Instruction_line (instructions b))"

definition Function_toString :: "Function \<Rightarrow> string" where
  "Function_toString f =
     ''define '' @ typeToString (returnType f) @ '' @'' @ func_name f @ ''() {'' @ [CHR 0x0A]
       @ concat (map (\<lambda>b. BasicBlock_toString b @ [CHR 0x0A]) (basicBlocks f))
       @ ''}'' @ [CHR 0x0A]"

definition Module_toString :: "Module \<Rightarrow> string" where
  "Module_toString m =
     ''module @'' @ mod_name m @ [CHR 0x0A, CHR 0x0A]
       @ concat (map (\<lambda>f. Function_toString f @ [CHR 0x0A]) (functions_of m))"

text \<open>A terminator is a Br, a CondBr or a Ret.\<close>

fun isTerminatorKind :: "InstKind \<Rightarrow> bool" where
  "isTerminatorKind (BrInst t) = True"
| "isTerminatorKind (CondBrInst c t f) = True"
| "isTerminatorKind (RetInst ty v) = True"
| "isTerminatorKind _ = False"

definition isTerminator :: "Instruction \<Rightarrow> bool" where
  "isTerminator instr = isTerminatorKind (kind instr)"

section \<open>Code generator (codegen.h, codegen.cpp)\<close>

text \<open>
  The generator's fields. \<^verbatim>\<open>module\<close> and \<^verbatim>\<open>currentFunction\<close> are owning pointers that
  \<^verbatim>\<open>generate\<close> sets before anything reads them. \<^verbatim>\<open>currentBlock\<close> is a plain pointer to
  a block; every block it is ever set to has just been added to \<^verbatim>\<open>currentFunction\<close>,
  blocks are only ever appended, and \<^verbatim>\<open>visitFunctionStmt\<close> saves and restores
  \<^verbatim>\<open>currentFunction\<close> and \<^verbatim>\<open>currentBlock\<close> together: the pointer is the index of the block
  in \<^verbatim>\<open>currentFunction\<close>'s list.

  A call of a \<^verbatim>\<open>visit\<close> function returns \<open>None\<close> when the source dereferences a null
  pointer (an absent child handed to \<^verbatim>\<open>visitExpression\<close>, which starts with
  \<^verbatim>\<open>expr->getType()\<close>), and \<open>Some\<close> of its result and the new state otherwise.
\<close>

record CodeGenerator =
  cg_module :: Module
  currentFunction :: Function
  currentBlock :: nat
  instrCount :: int
  blockCount :: int
  variableMap :: "string \<rightharpoonup> string"

definition generateInstrName :: "CodeGenerator \<Rightarrow> string \<times> CodeGenerator" where
  "generateInstrName g = (''%instr'' @ to_string (instrCount g), g\<lparr>instrCount := instrCount g + 1\<rparr>)"

definition generateBlockName :: "CodeGenerator \<Rightarrow> string \<times> CodeGenerator" where
  "generateBlockName g = (''block'' @ to_string (blockCount g), g\<lparr>blockCount := blockCount g + 1\<rparr>)"

text \<open>\<^verbatim>\<open>currentBlock->addInstruction(std::move(instr))\<close>.\<close>

definition emit :: "Instruction \<Rightarrow> CodeGenerator \<Rightarrow> CodeGenerator" where
  "emit instr g =
     g\<lparr>currentFunction := (currentFunction g)
        \<lparr>basicBlocks := (basicBlocks (currentFunction g))
           [currentBlock g := addInstruction instr (basicBlocks (currentFunction g) ! currentBlock g)]\<rparr>\<rparr>"

text \<open>
  The \<^verbatim>\<open>create\<close> functions. Those that return a name give the instruction a fresh name,
  append it to the current block and return that name (the source reads it back from
  the instruction with \<^verbatim>\<open>instr->name\<close> after the instruction has been handed to the
  block; the model returns the name that was assigned). The others append an
  instruction whose name is empty.
\<close>

definition createNamed :: "InstKind \<Rightarrow> CodeGenerator \<Rightarrow> string \<times> CodeGenerator" where
  "createNamed k g =
     (let (n, g1) = generateInstrName g in (n, emit \<lparr>instr_name = n, kind = k\<rparr> g1))"

definition createConstant :: "Type \<Rightarrow> string \<Rightarrow> CodeGenerator \<Rightarrow> string \<times> CodeGenerator" where
  "createConstant ty v g = createNamed (ConstInst ty v) g"

definition createBinaryOp ::
  "OpCode \<Rightarrow> Type \<Rightarrow> string \<Rightarrow> string \<Rightarrow> CodeGenerator \<Rightarrow> string \<times> CodeGenerator" where
  "createBinaryOp opcode ty l r g = createNamed (BinaryInst opcode ty l r) g"

definition createUnaryOp :: "OpCode \<Rightarrow> Type \<Rightarrow> string \<Rightarrow> CodeGenerator \<Rightarrow> string \<times> CodeGenerator" where
  "createUnaryOp opcode ty x g = createNamed (UnaryInst opcode ty x) g"

definition createCall :: "Type \<Rightarrow> string \<Rightarrow> string list \<Rightarrow> CodeGenerator \<Rightarrow> string \<times> CodeGenerator" where
  "createCall ty funcName arguments g = createNamed (CallInst ty funcName arguments) g"

definition createAlloca :: "Type \<Rightarrow> CodeGenerator \<Rightarrow> string \<times> CodeGenerator" where
  "createAlloca ty g = createNamed (AllocaInst ty) g"

definition createLoad :: "Type \<Rightarrow> string \<Rightarrow> CodeGenerator \<Rightarrow> string \<times> CodeGenerator" where
  "createLoad ty p g = createNamed (LoadInst ty p) g"

definition createStore :: "Type \<Rightarrow> string \<Rightarrow> string \<Rightarrow> CodeGenerator \<Rightarrow> CodeGenerator" where
  "createStore ty v p g = emit \<lparr>instr_name = [], kind = StoreInst ty v p\<rparr> g"

definition createCondBr :: "string \<Rightarrow> string \<Rightarrow> string \<Rightarrow> CodeGenerator \<Rightarrow> CodeGenerator" where
  "createCondBr c t f g = emit \<lparr>instr_name = [], kind = CondBrInst c t f\<rparr> g"

definition createBr :: "string \<Rightarrow> CodeGenerator \<Rightarrow> CodeGenerator" where
  "createBr t g = emit \<lparr>instr_name = [], kind = BrInst t\<rparr> g"

definition createRet :: "Type \<Rightarrow> string \<Rightarrow> CodeGenerator \<Rightarrow> CodeGenerator" where
  "createRet ty v g = emit \<lparr>instr_name = [], kind = RetInst ty v\<rparr> g"

text \<open>
  \<^verbatim>\<open>std::make_unique<BasicBlock>(generateBlockName())\<close>, and
  \<^verbatim>\<open>currentFunction->addBasicBlock(std::move(block))\<close>, which leaves the pointer to the
  block: the index it got.
\<close>

definition newBlock :: "CodeGenerator \<Rightarrow> BasicBlock \<times> CodeGenerator" where
  "newBlock g = (let (n, g1) = generateBlockName g in (\<lparr>block_name = n, instructions = []\<rparr>, g1))"

definition appendBlock :: "BasicBlock \<Rightarrow> CodeGenerator \<Rightarrow> nat \<times> CodeGenerator" where
  "appendBlock b g =
     (length (basicBlocks (currentFunction g)),
      g\<lparr>currentFunction := addBasicBlock b (currentFunction g)\<rparr>)"

text \<open>The operator tables of \<^verbatim>\<open>visitBinaryExpr\<close> and \<^verbatim>\<open>visitUnaryExpr\<close>, and the type of a literal.\<close>

definition binaryOpcode :: "string \<Rightarrow> OpCode" where
  "binaryOpcode op =
     (if op = ''+'' then ADD
      else if op = ''-'' then SUB
      else if op = ''*'' then MUL
      else if op = ''/'' then DIV
      else if op = ''%'' then MOD
      else if op = ''=='' then EQ
      else if op = ''!='' then NE
      else if op = ''<'' then LT
      else if op = ''<='' then LE
      else if op = ''>'' then GT
      else if op = ''>='' then GE
      else if op = ''&&'' then AND
      else if op = ''||'' then OR
      else ADD)"

definition unaryOpcode :: "string \<Rightarrow> OpCode" where
  "unaryOpcode op = (if op = ''!'' then NOT else if op = ''-'' then SUB else NOT)"

definition literalType :: "string \<Rightarrow> Type" where
  "literalType ty =
     (if ty = ''number'' then INT32
      else if ty = ''string'' then POINTER
      else if ty = ''bool'' then BOOL
      else INT32)"

definition visitIdentifierExpr :: "string \<Rightarrow> CodeGenerator \<Rightarrow> string \<times> CodeGenerator" where
  "visitIdentifierExpr name g =
     (case variableMap g name of
        Some p \<Rightarrow> createLoad INT32 p g
      | None \<Rightarrow> createConstant INT32 ''0'' g)"

text \<open>The part of \<^verbatim>\<open>visitAssignExpr\<close> after the value has been lowered.\<close>

definition assignStore :: "string \<Rightarrow> string \<Rightarrow> CodeGenerator \<Rightarrow> CodeGenerator" where
  "assignStore name val g =
     (case variableMap g name of
        Some p \<Rightarrow> createStore INT32 val p g
      | None \<Rightarrow>
          (let (alloca, g1) = createAlloca INT32 g;
               g2 = createStore INT32 val alloca g1
           in g2\<lparr>variableMap := (variableMap g2)(name \<mapsto> alloca)\<rparr>))"

text \<open>
  The format string \<^verbatim>\<open>println\<close> is given for its first argument: \<^verbatim>\<open>"%s\n"\<close> for a literal
  whose type is \<open>string\<close>, \<^verbatim>\<open>"%d\n"\<close> for any other literal and for any other expression.
\<close>

definition printlnFormat :: "Expr \<Rightarrow> string" where
  "printlnFormat arg =
     (case asLiteralExpr arg of
        Some (val, ty) \<Rightarrow> (if ty = ''string'' then ''%s'' @ [CHR 0x0A] else ''%d'' @ [CHR 0x0A])
      | None \<Rightarrow> ''%d'' @ [CHR 0x0A])"

text \<open>
  \<^verbatim>\<open>visitExpression\<close> with the functions it dispatches to; \<open>visitExpressions\<close> is the loop
  over the arguments of a call.
\<close>

fun visitExpression :: "Expr \<Rightarrow> CodeGenerator \<Rightarrow> (string \<times> CodeGenerator) option"
  and visitExpressions :: "Expr list \<Rightarrow> CodeGenerator \<Rightarrow> (string list \<times> CodeGenerator) option" where
  "visitExpression (BinaryExpr left op right) g =
     do {
       (l, g1) \<leftarrow> visitExpression left g;
       (r, g2) \<leftarrow> visitExpression right g1;
       Some (createBinaryOp (binaryOpcode op) INT32 l r g2)
     }"
| "visitExpression (UnaryExpr op right) g =
     do {
       (operand, g1) \<leftarrow> visitExpression right g;
       Some (createUnaryOp (unaryOpcode op) INT32 operand g1)
     }"
| "visitExpression (LiteralExpr val ty) g = Some (createConstant (literalType ty) val g)"
| "visitExpression (IdentifierExpr name) g = Some (visitIdentifierExpr name g)"
| "visitExpression (AssignExpr name val) g =
     do {
       (v, g1) \<leftarrow> visitExpression val g;
       Some (v, assignStore name v g1)
     }"
| "visitExpression (CallExpr callee arguments) g =
     (case asIdentifierExpr callee of
        Some ident \<Rightarrow>
          (if ident = ''println'' then
             (case arguments of
                arg # rest \<Rightarrow>
                  do {
                    let (fmt, g1) = createConstant POINTER (printlnFormat arg) g;
                    (a, g2) \<leftarrow> visitExpression arg g1;
                    Some (createCall INT32 ''printf'' [fmt, a] g2)
                  }
              | [] \<Rightarrow>
                  (let (nl, g1) = createConstant POINTER [CHR 0x0A] g
                   in Some (createCall INT32 ''printf'' [nl] g1)))
           else
             do {
               (args, g1) \<leftarrow> visitExpressions arguments g;
               Some (createCall INT32 ident args g1)
             })
      | None \<Rightarrow> Some (createCall INT32 ''printf'' [] g))"
| "visitExpression (MemberExpr object name) g = visitExpression object g"
| "visitExpression (GroupingExpr expression) g = visitExpression expression g"
| "visitExpression ThisExpr g = Some (createConstant INT32 ''0'' g)"
| "visitExpression (SuperExpr method) g = Some (createConstant INT32 ''0'' g)"
| "visitExpression (ArrayExpr elements) g = Some (createConstant INT32 ''0'' g)"
| "visitExpression (ObjectExpr properties) g = Some (createConstant INT32 ''0'' g)"
| "visitExpression (IndexExpr object index) g = Some (createConstant INT32 ''0'' g)"
| "visitExpression (LambdaExpr parameters body) g = Some (createConstant INT32 ''0'' g)"
| "visitExpression (AwaitExpr expression) g = Some (createConstant INT32 ''0'' g)"
| "visitExpression (YieldExpr expression) g = Some (createConstant INT32 ''0'' g)"
| "visitExpressions [] g = Some ([], g)"
| "visitExpressions (arg # rest) g =
     do {
       (a, g1) \<leftarrow> visitExpression arg g;
       (as, g2) \<leftarrow> visitExpressions rest g1;
       Some (a # as, g2)
     }"

text \<open>
  \<^verbatim>\<open>visitExpression(p.get())\<close> for a child \<open>p\<close> that may be null: the call dereferences
  the pointer.
\<close>

definition visitExpressionPtr :: "Expr option \<Rightarrow> CodeGenerator \<Rightarrow> (string \<times> CodeGenerator) option" where
  "visitExpressionPtr e g = (case e of None \<Rightarrow> None | Some e' \<Rightarrow> visitExpression e' g)"

text \<open>
  The body shared by \<^verbatim>\<open>visitVarStmt\<close> and \<^verbatim>\<open>visitConstStmt\<close>, which are the same text.
\<close>

definition visitDeclaration :: "string \<Rightarrow> Expr option \<Rightarrow> CodeGenerator \<Rightarrow> CodeGenerator option" where
  "visitDeclaration name initializer g =
     do {
       (init, g1) \<leftarrow> (case initializer of
                         Some e \<Rightarrow> visitExpression e g
                       | None \<Rightarrow> Some (createConstant INT32 ''0'' g));
       let (alloca, g2) = createAlloca INT32 g1;
       let g3 = createStore INT32 init alloca g2;
       Some (g3\<lparr>variableMap := (variableMap g3)(name \<mapsto> alloca)\<rparr>)
     }"

definition visitPrintStmt :: "Expr \<Rightarrow> CodeGenerator \<Rightarrow> CodeGenerator option" where
  "visitPrintStmt expression g =
     do {
       (expr, g1) \<leftarrow> visitExpression expression g;
       let (fmt, g2) = createConstant POINTER (''%d'' @ [CHR 0x0A]) g1;
       Some (snd (createCall INT32 ''printf'' [fmt, expr] g2))
     }"

definition visitReturnStmt :: "Expr option \<Rightarrow> CodeGenerator \<Rightarrow> CodeGenerator option" where
  "visitReturnStmt val g =
     (case val of
        Some e \<Rightarrow> do { (v, g1) \<leftarrow> visitExpression e g; Some (createRet INT32 v g1) }
      | None \<Rightarrow> (let (z, g1) = createConstant INT32 ''0'' g in Some (createRet INT32 z g1)))"

text \<open>
  \<^verbatim>\<open>visitStatement\<close> with the functions it dispatches to; \<open>visitStatements\<close> is the loop
  over a statement list. Statements of a type the switch does not name lower to nothing.
\<close>

fun visitStatement :: "Stmt \<Rightarrow> CodeGenerator \<Rightarrow> CodeGenerator option"
  and visitStatements :: "Stmt list \<Rightarrow> CodeGenerator \<Rightarrow> CodeGenerator option" where
  "visitStatement (ExpressionStmt expression) g =
     do { (v, g1) \<leftarrow> visitExpression expression g; Some g1 }"
| "visitStatement (PrintStmt expression) g = visitPrintStmt expression g"
| "visitStatement (VarStmt name ty initializer) g = visitDeclaration name initializer g"
| "visitStatement (ConstStmt name ty initializer) g = visitDeclaration name initializer g"
| "visitStatement (FunctionStmt name parameters rty body isAsync isCoroutine) g =
     do {
       let (entryBlock, g1) = newBlock g;
       let func = addBasicBlock entryBlock \<lparr>func_name = name, returnType = INT32, basicBlocks = []\<rparr>;
       let oldFunction = currentFunction g1;
       let oldBlock = currentBlock g1;
       let oldVariableMap = variableMap g1;
       let g2 = g1\<lparr>currentFunction := func, currentBlock := 0, variableMap := Map.empty\<rparr>;
       g3 \<leftarrow> visitStatement body g2;
       let (z, g4) = createConstant INT32 ''0'' g3;
       let g5 = createRet INT32 z g4;
       let g6 = g5\<lparr>cg_module := addFunction (currentFunction g5) (cg_module g5)\<rparr>;
       Some (g6\<lparr>currentFunction := oldFunction, currentBlock := oldBlock,
                variableMap := oldVariableMap\<rparr>)
     }"
| "visitStatement (ReturnStmt val) g = visitReturnStmt val g"
| "visitStatement (BlockStmt statements) g = visitStatements statements g"
| "visitStatement (IfStmt condition thenBranch elseBranch) g =
     do {
       (c, g1) \<leftarrow> visitExpression condition g;
       let (thenBlock, g2) = newBlock g1;
       let (elseBlock, g3) = newBlock g2;
       let (mergeBlock, g4) = newBlock g3;
       let (thenBlockPtr, g5) = appendBlock thenBlock g4;
       let (elseBlockPtr, g6) = appendBlock elseBlock g5;
       let (mergeBlockPtr, g7) = appendBlock mergeBlock g6;
       let g8 = createCondBr c (block_name thenBlock) (block_name elseBlock) g7;
       g9 \<leftarrow> visitStatement thenBranch (g8\<lparr>currentBlock := thenBlockPtr\<rparr>);
       let g10 = createBr (block_name mergeBlock) g9;
       g11 \<leftarrow> (case elseBranch of
                 Some e \<Rightarrow> visitStatement e (g10\<lparr>currentBlock := elseBlockPtr\<rparr>)
               | None \<Rightarrow> Some (g10\<lparr>currentBlock := elseBlockPtr\<rparr>));
       let g12 = createBr (block_name mergeBlock) g11;
       Some (g12\<lparr>currentBlock := mergeBlockPtr\<rparr>)
     }"
| "visitStatement (WhileStmt condition body) g =
     do {
       let (conditionBlock, g1) = newBlock g;
       let (bodyBlock, g2) = newBlock g1;
       let (mergeBlock, g3) = newBlock g2;
       let (conditionBlockPtr, g4) = appendBlock conditionBlock g3;
       let (bodyBlockPtr, g5) = appendBlock bodyBlock g4;
       let (mergeBlockPtr, g6) = appendBlock mergeBlock g5;
       let g7 = createBr (block_name conditionBlock) g6;
       (c, g8) \<leftarrow> visitExpression condition (g7\<lparr>currentBlock := conditionBlockPtr\<rparr>);
       let g9 = createCondBr c (block_name bodyBlock) (block_name mergeBlock) g8;
       g10 \<leftarrow> visitStatement body (g9\<lparr>currentBlock := bodyBlockPtr\<rparr>);
       let g11 = createBr (block_name conditionBlock) g10;
       Some (g11\<lparr>currentBlock := mergeBlockPtr\<rparr>)
     }"
| "visitStatement (ForStmt initializer condition increment body) g =
     do {
       g0 \<leftarrow> (case initializer of Some i \<Rightarrow> visitStatement i g | None \<Rightarrow> Some g);
       let (conditionBlock, g1) = newBlock g0;
       let (bodyBlock, g2) = newBlock g1;
       let (incrementBlock, g3) = newBlock g2;
       let (mergeBlock, g4) = newBlock g3;
       let (conditionBlockPtr, g5) = appendBlock conditionBlock g4;
       let (bodyBlockPtr, g6) = appendBlock bodyBlock g5;
       let (incrementBlockPtr, g7) = appendBlock incrementBlock g6;
       let (mergeBlockPtr, g8) = appendBlock mergeBlock g7;
       let g9 = createBr (block_name conditionBlock) g8;
       (c, g10) \<leftarrow> visitExpressionPtr condition (g9\<lparr>currentBlock := conditionBlockPtr\<rparr>);
       let g11 = createCondBr c (block_name bodyBlock) (block_name mergeBlock) g10;
       g12 \<leftarrow> visitStatement body (g11\<lparr>currentBlock := bodyBlockPtr\<rparr>);
       let g13 = createBr (block_name incrementBlock) g12;
       (i, g14) \<leftarrow> visitExpressionPtr increment (g13\<lparr>currentBlock := incrementBlockPtr\<rparr>);
       let g15 = createBr (block_name conditionBlock) g14;
       Some (g15\<lparr>currentBlock := mergeBlockPtr\<rparr>)
     }"
| "visitStatement (StructStmt name flds) g = Some g"
| "visitStatement (ClassStmt name superclass methods) g = Some g"
| "visitStatement (TryStmt body catches finally) g = Some g"
| "visitStatement (CatchStmt name ty body) g = Some g"
| "visitStatement (ThrowStmt expression) g = Some g"
| "visitStatement (ProcessStmt ident body) g = Some g"
| "visitStatements [] g = Some g"
| "visitStatements (stmt # rest) g =
     do { g1 \<leftarrow> visitStatement stmt g; visitStatements rest g1 }"

text \<open>
  The constructor sets both counters to zero and leaves the variable map empty; the three
  pointers are null until \<^verbatim>\<open>generate\<close> sets them, and stand here as an empty module, an
  empty function and index 0, which \<^verbatim>\<open>generate\<close> overwrites.
\<close>

definition CodeGenerator_new :: CodeGenerator where
  "CodeGenerator_new =
     \<lparr>cg_module = \<lparr>mod_name = [], functions_of = []\<rparr>,
      currentFunction = \<lparr>func_name = [], returnType = VOID, basicBlocks = []\<rparr>,
      currentBlock = 0, instrCount = 0, blockCount = 0, variableMap = Map.empty\<rparr>"

text \<open>\<^verbatim>\<open>generate\<close>: the state in which the statements are visited, and the whole function.\<close>

definition generate_begin :: "CodeGenerator \<Rightarrow> CodeGenerator" where
  "generate_begin g =
     (let g1 = g\<lparr>cg_module := \<lparr>mod_name = ''main'', functions_of = []\<rparr>,
                 currentFunction := \<lparr>func_name = ''main'', returnType = INT32, basicBlocks = []\<rparr>\<rparr>;
          (entryBlock, g2) = newBlock g1;
          (entryPtr, g3) = appendBlock entryBlock g2
      in g3\<lparr>currentBlock := entryPtr\<rparr>)"

definition generate :: "Stmt list \<Rightarrow> CodeGenerator \<Rightarrow> Module option" where
  "generate statements g =
     do {
       g1 \<leftarrow> visitStatements statements (generate_begin g);
       let (z, g2) = createConstant INT32 ''0'' g1;
       let g3 = createRet INT32 z g2;
       Some (addFunction (currentFunction g3) (cg_module g3))
     }"

section \<open>The programs of the claims\<close>

text \<open>
  The statement list the parser builds for
  \<^verbatim>\<open>let x:int=1; while(x<3){ println(x); x=x+1; }\<close>: \<^verbatim>\<open>varStatement\<close> keeps the declared
  type \<open>int\<close>, \<^verbatim>\<open>primary\<close> makes of every INTEGER token a literal of type \<open>number\<close>, and
  \<^verbatim>\<open>assignment\<close> makes of \<^verbatim>\<open>x=x+1\<close> an assignment to the name \<open>x\<close>.
\<close>

definition while_program :: "Stmt list" where
  "while_program =
     [VarStmt ''x'' ''int'' (Some (LiteralExpr ''1'' ''number'')),
      WhileStmt (BinaryExpr (IdentifierExpr ''x'') ''<'' (LiteralExpr ''3'' ''number''))
        (BlockStmt
          [ExpressionStmt (CallExpr (IdentifierExpr ''println'') [IdentifierExpr ''x'']),
           ExpressionStmt (AssignExpr ''x''
              (BinaryExpr (IdentifierExpr ''x'') ''+'' (LiteralExpr ''1'' ''number'')))])]"

chapter \<open>Properties\<close>

section \<open>Lexer\<close>

text \<open>
  C5. The claim: before every token scan the lexer skips whitespace and both comment
  forms, a block comment between two tokens reads like whitespace, and a \<open>/\<close> that does
  not begin a comment comes back as a DIVIDE token.

  The code does not do this. \<^verbatim>\<open>skipWhitespace\<close> tests \<^verbatim>\<open>peek() == '/'\<close> on the very \<open>/\<close> it
  dispatched on, so every \<open>/\<close> at the start of a token opens a line comment: on
  \<open>a / b\<close> the lexer hands out the identifier \<open>a\<close> and then END_OF_FILE for ever; the
  division and its right operand are gone.
\<close>

theorem getNextToken_swallows_divide:
  "map (\<lambda>t. (type t, lexeme t)) (tokens 4 (Lexer_new ''a / b'')) =
     [(TT_IDENTIFIER, ''a''), (TT_END_OF_FILE, []), (TT_END_OF_FILE, []), (TT_END_OF_FILE, [])]"
  by code_simp

text \<open>
  A block comment on one line takes the rest of the line with it, and a block comment
  over two lines leaves its second line to be read as tokens.
\<close>

lemma getNextToken_block_comment_one_line:
  "map (\<lambda>t. (type t, lexeme t)) (tokens 3 (Lexer_new ''a /* c */ b'')) =
     [(TT_IDENTIFIER, ''a''), (TT_END_OF_FILE, []), (TT_END_OF_FILE, [])]"
  by code_simp

lemma getNextToken_block_comment_two_lines:
  "map (\<lambda>t. (type t, lexeme t)) (tokens 4 (Lexer_new (''a /* c'' @ [CHR 0x0A] @ ''d */ b''))) =
     [(TT_IDENTIFIER, ''a''), (TT_IDENTIFIER, ''d''), (Op OP_MULTIPLY, ''*''), (TT_END_OF_FILE, [])]"
  by code_simp

text \<open>A line comment between two tokens does read like whitespace.\<close>

lemma getNextToken_line_comment:
  "map (\<lambda>t. (type t, lexeme t)) (tokens 3 (Lexer_new (''a // c'' @ [CHR 0x0A] @ ''b''))) =
     map (\<lambda>t. (type t, lexeme t)) (tokens 3 (Lexer_new (''a '' @ [CHR 0x0A] @ ''b'')))"
  by code_simp

text \<open>
  C9. The claim: for every lexer state and every token \<open>t\<close>, \<^verbatim>\<open>ungetToken(t)\<close> followed by
  \<^verbatim>\<open>getNextToken()\<close> returns \<open>t\<close>, and the tokens read afterwards are the ones that would
  have been read without the pair.

  As stated it fails in a state that already holds a pushed-back token: the slot has
  room for one token, \<^verbatim>\<open>ungetToken\<close> overwrites it, and the token that was pending is
  lost. Below, the token \<open>1\<close> is pending, \<open>2\<close> is pushed back and read again; the next
  token is then END_OF_FILE, where it was \<open>1\<close> before.
\<close>

theorem ungetToken_overwrites_pending:
  "tokens 1 (snd (getNextToken (ungetToken
        \<lparr>type = TT_INTEGER, lexeme = ''2'', line = 1, column = 1\<rparr>
        \<lparr>source = [], position = 0, lline = 1, lcolumn = 1,
          ungotToken = Some \<lparr>type = TT_INTEGER, lexeme = ''1'', line = 1, column = 1\<rparr>\<rparr>)))
   \<noteq> tokens 1 \<lparr>source = [], position = 0, lline = 1, lcolumn = 1,
          ungotToken = Some \<lparr>type = TT_INTEGER, lexeme = ''1'', line = 1, column = 1\<rparr>\<rparr>"
  by (simp add: getNextToken_def ungetToken_def skipWhitespace.simps isAtEnd_def makeToken_def)

text \<open>
  C9, amended: in a state whose pushback slot is empty, \<^verbatim>\<open>ungetToken(t)\<close> followed by
  \<^verbatim>\<open>getNextToken()\<close> returns \<open>t\<close> and leaves the lexer in the state it had before the
  pair, so every later token is the one it would have been. (In every state, also one
  with a pending token, the token returned is \<open>t\<close>.)
\<close>

theorem ungetToken_getNextToken_round_trip:
  "fst (getNextToken (ungetToken t s)) = t \<and>
   (ungotToken s = None \<longrightarrow>
      snd (getNextToken (ungetToken t s)) = s \<and>
      (\<forall>n. tokens n (snd (getNextToken (ungetToken t s))) = tokens n s))"
proof -
  have same: "s\<lparr>ungotToken := None\<rparr> = s" if "ungotToken s = None"
    using that by (cases s) simp
  show ?thesis by (simp add: getNextToken_def ungetToken_def same)
qed

theorem ungetToken_getNextToken_round_trip_witness:
  "ungotToken (Lexer_new ''a b'') = None \<and>
   getNextToken (ungetToken \<lparr>type = TT_INTEGER, lexeme = ''2'', line = 1, column = 1\<rparr> (Lexer_new ''a b''))
     = (\<lparr>type = TT_INTEGER, lexeme = ''2'', line = 1, column = 1\<rparr>, Lexer_new ''a b'') \<and>
   map lexeme (tokens 2 (snd (getNextToken
       (ungetToken \<lparr>type = TT_INTEGER, lexeme = ''2'', line = 1, column = 1\<rparr> (Lexer_new ''a b'')))))
     = [''a'', ''b'']"
proof -
  have e: "ungotToken (Lexer_new ''a b'') = None" by (simp add: Lexer_new_def)
  have t: "map lexeme (tokens 2 (Lexer_new ''a b'')) = [''a'', ''b'']" by code_simp
  show ?thesis
    using ungetToken_getNextToken_round_trip
      [of "\<lparr>type = TT_INTEGER, lexeme = ''2'', line = 1, column = 1\<rparr>" "Lexer_new ''a b''"] e t
    by (metis prod.collapse)
qed

section \<open>Parser\<close>

text \<open>
  The loop of \<^verbatim>\<open>Parser::advance\<close> ends on a token that is not an ERROR token, and leaves
  \<^verbatim>\<open>previousToken\<close> as it was set before the loop.
\<close>

lemma advanceLoop_result:
  "type (currentToken (advanceLoop p)) \<noteq> TT_ERROR \<and> previousToken (advanceLoop p) = previousToken p"
proof (induction p rule: advanceLoop.induct)
  case (1 p)
  let ?r = "getNextToken (lexer p)"
  let ?p1 = "p\<lparr>lexer := snd ?r, currentToken := fst ?r\<rparr>"
  show ?case
  proof (cases "type (fst ?r) = TT_ERROR")
    case True
    then have "advanceLoop p = advanceLoop (Parser_error (lexeme (currentToken ?p1)) ?p1)"
      by (subst advanceLoop.simps) (simp add: Let_def)
    moreover have "type (currentToken (advanceLoop (Parser_error (lexeme (currentToken ?p1)) ?p1))) \<noteq> TT_ERROR
        \<and> previousToken (advanceLoop (Parser_error (lexeme (currentToken ?p1)) ?p1))
            = previousToken (Parser_error (lexeme (currentToken ?p1)) ?p1)"
      using 1 [OF refl refl] True by simp
    ultimately show ?thesis by (simp add: Parser_error_def)
  next
    case False
    then show ?thesis by (subst (1 2) advanceLoop.simps) (simp add: Let_def)
  qed
qed

text \<open>
  C8. \<^verbatim>\<open>Parser::consume(type, message)\<close>. On a mismatch it returns the current token and
  leaves lexer, current token and previous token as they were: the only changes are one
  more line on \<^verbatim>\<open>std::cerr\<close>, \<open>Error at line L, column C: message\<close> with the current token's
  line and column, and the error flag, which is set. On a match it returns the token that
  was current and the parser has advanced: that token is now the previous token, the
  current token is not an ERROR token, and when the lexer's next token is not an ERROR
  token it is the new current token and nothing is reported.
\<close>

theorem Parser_consume_contract:
  "(type (currentToken p) \<noteq> ty \<longrightarrow>
      Parser_consume ty message p =
        (currentToken p,
         p\<lparr>cerr := cerr p @
               [''Error at line '' @ to_string (line (currentToken p)) @ '', column ''
                  @ to_string (column (currentToken p)) @ '': '' @ message],
           hadError := True\<rparr>)) \<and>
   (type (currentToken p) = ty \<longrightarrow>
      Parser_consume ty message p = (currentToken p, Parser_advance p) \<and>
      previousToken (Parser_advance p) = currentToken p \<and>
      type (currentToken (Parser_advance p)) \<noteq> TT_ERROR \<and>
      (type (fst (getNextToken (lexer p))) \<noteq> TT_ERROR \<longrightarrow>
         Parser_advance p =
           p\<lparr>previousToken := currentToken p, lexer := snd (getNextToken (lexer p)),
             currentToken := fst (getNextToken (lexer p))\<rparr>))"
proof -
  have a: "Parser_advance p =
           p\<lparr>previousToken := currentToken p, lexer := snd (getNextToken (lexer p)),
             currentToken := fst (getNextToken (lexer p))\<rparr>"
    if "type (fst (getNextToken (lexer p))) \<noteq> TT_ERROR"
    using that unfolding Parser_advance_def by (subst advanceLoop.simps) (simp add: Let_def)
  show ?thesis
    using advanceLoop_result [of "p\<lparr>previousToken := currentToken p\<rparr>"] a
    by (simp add: Parser_consume_def Parser_check_def Parser_error_def Parser_advance_def Let_def)
qed


theorem Parser_consume_contract_witness:
  "type (currentToken (Parser_new ''5 x'')) \<noteq> TT_IDENTIFIER \<and>
   fst (Parser_consume TT_IDENTIFIER ''Expect variable name.'' (Parser_new ''5 x''))
     = \<lparr>type = TT_INTEGER, lexeme = ''5'', line = 1, column = 1\<rparr> \<and>
   cerr (snd (Parser_consume TT_IDENTIFIER ''Expect variable name.'' (Parser_new ''5 x'')))
     = [''Error at line 1, column 1: Expect variable name.''] \<and>
   hadError (snd (Parser_consume TT_IDENTIFIER ''Expect variable name.'' (Parser_new ''5 x''))) \<and>
   currentToken (snd (Parser_consume TT_IDENTIFIER ''Expect variable name.'' (Parser_new ''5 x'')))
     = currentToken (Parser_new ''5 x'') \<and>
   type (currentToken (Parser_new ''5 x'')) = TT_INTEGER \<and>
   fst (Parser_consume TT_INTEGER ''Expect a number.'' (Parser_new ''5 x''))
     = \<lparr>type = TT_INTEGER, lexeme = ''5'', line = 1, column = 1\<rparr> \<and>
   currentToken (snd (Parser_consume TT_INTEGER ''Expect a number.'' (Parser_new ''5 x'')))
     = \<lparr>type = TT_IDENTIFIER, lexeme = ''x'', line = 1, column = 3\<rparr>"
proof -
  have cur: "currentToken (Parser_new ''5 x'') = \<lparr>type = TT_INTEGER, lexeme = ''5'', line = 1, column = 1\<rparr>"
    by code_simp
  have err: "cerr (Parser_new ''5 x'') = []"
    by code_simp
  have nxt: "currentToken (Parser_advance (Parser_new ''5 x''))
               = \<lparr>type = TT_IDENTIFIER, lexeme = ''x'', line = 1, column = 3\<rparr>"
    by code_simp
  have one: "to_string 1 = ''1''"
    by code_simp
  show ?thesis
    using Parser_consume_contract [of "Parser_new ''5 x''" TT_IDENTIFIER "''Expect variable name.''"]
          Parser_consume_contract [of "Parser_new ''5 x''" TT_INTEGER "''Expect a number.''"]
    by (simp add: cur err nxt one)
qed

section \<open>Semantic analyzer\<close>

text \<open>
  C2. The claim: analyzing \<^verbatim>\<open>let x:int=1; while(x<3){ println(x); x=x+1; }\<close> reports no
  semantic error.

  The code reports four. The declared type \<open>int\<close> is compared, as a string, with the type
  \<open>number\<close> that the parser gives every integer literal: the declaration, the comparison
  \<^verbatim>\<open>x<3\<close>, the sum \<^verbatim>\<open>x+1\<close> and the assignment each report a type mismatch, and
  \<^verbatim>\<open>hadError()\<close> is true afterwards.
\<close>

theorem analyze_while_program_reports_errors:
  "hadError_sa (analyze while_program SemanticAnalyzer_new) \<and>
   sa_cerr (analyze while_program SemanticAnalyzer_new) =
     [''Semantic error: Type mismatch: expected '' @ [CHR 0x27] @ ''int'' @ [CHR 0x27] @ '', got ''
        @ [CHR 0x27] @ ''number'' @ [CHR 0x27] @ ''.'',
      ''Semantic error: Type mismatch in binary expression: expected '' @ [CHR 0x27] @ ''int''
        @ [CHR 0x27] @ '', got '' @ [CHR 0x27] @ ''number'' @ [CHR 0x27] @ ''.'',
      ''Semantic error: Type mismatch in binary expression: expected '' @ [CHR 0x27] @ ''int''
        @ [CHR 0x27] @ '', got '' @ [CHR 0x27] @ ''number'' @ [CHR 0x27] @ ''.'',
      ''Semantic error: Type mismatch in assignment: expected '' @ [CHR 0x27] @ ''int''
        @ [CHR 0x27] @ '', got '' @ [CHR 0x27] @ ''number'' @ [CHR 0x27] @ ''.'']"
  by code_simp

text \<open>
  The first statement alone is enough, and it is the first line of the sample program of
  the repository's own middle-end test (\<^verbatim>\<open>let x: int = 10;\<close>), which the test expects to
  pass the analyzer and reach code generation.
\<close>

lemma analyze_int_declaration_is_rejected:
  "hadError_sa (analyze [VarStmt ''x'' ''int'' (Some (LiteralExpr ''10'' ''number''))] SemanticAnalyzer_new)"
  by code_simp

text \<open>The lexer does hand the literals of the program to the parser as INTEGER tokens.\<close>

lemma tokens_of_while_program:
  "map (\<lambda>t. (type t, lexeme t))
     (tokens 9 (Lexer_new ''let x:int=1; while(x<3){ println(x); x=x+1; }'')) =
     [(Kw KW_LET, ''let''), (TT_IDENTIFIER, ''x''), (Pu PU_COLON, '':''), (TT_IDENTIFIER, ''int''),
      (Op OP_ASSIGN, ''=''), (TT_INTEGER, ''1''), (Pu PU_SEMICOLON, '';''), (Kw KW_WHILE, ''while''),
      (Pu PU_LEFT_PAREN, ''('')]"
  by code_simp

text \<open>
  C3. The claim: for each of the operators \<open>==\<close>, \<open>!=\<close>, \<open><\<close>, \<open><=\<close>, \<open>>\<close>, \<open>>=\<close>,
  \<^verbatim>\<open>analyzeBinaryExpr\<close> returns \<open>bool\<close>, whatever the operand types.

  The code does so for the first five. For \<open>>=\<close> it returns the type of the left operand:
  the chain of comparisons in \<^verbatim>\<open>analyzeBinaryExpr\<close> ends with \<^verbatim>\<open>expr->op == ">"\<close> twice and
  never tests \<open>>=\<close>, which falls through to \<^verbatim>\<open>return leftType\<close>. For \<^verbatim>\<open>1 >= 2\<close> the type is
  \<open>number\<close>.
\<close>

theorem analyzeBinaryExpr_greater_equal_is_not_bool:
  "fst (analyzeExpression (BinaryExpr (LiteralExpr ''1'' ''number'') ''>='' (LiteralExpr ''2'' ''number''))
          SemanticAnalyzer_new) = ''number''"
  by code_simp

lemma analyzeBinaryExpr_greater_equal_is_left_type:
  "fst (analyzeExpression (BinaryExpr left ''>='' right) a) = fst (analyzeExpression left a)"
  by (simp add: binaryResult_def Let_def split: prod.splits)

lemma analyzeBinaryExpr_other_comparisons_are_bool:
  "op = ''=='' \<or> op = ''!='' \<or> op = ''<'' \<or> op = ''<='' \<or> op = ''>'' \<Longrightarrow>
   fst (analyzeExpression (BinaryExpr left op right) a) = ''bool''"
  by (auto simp: binaryResult_def Let_def split: prod.splits)

end
